theory Spec2Isabelle
  imports Complex_Main "HOL-Library.Sublist" "HOL-Library.Char_ord" "HOL-Library.List_Lexorder"
begin

section \<open>Data carried between the steps\<close>

text \<open>
  A sub-score is the \<^verbatim>\<open>response.data\<close> of one analyze call: the numeric \<^verbatim>\<open>score\<close> and
  whatever else the service sent. A session is the \<^verbatim>\<open>response.data\<close> of the aggregate
  call and the element type of the history list.
\<close>

record subScore =
  score :: real
  metadata :: string

record session =
  session_id :: string
  timestamp :: string
  survey_score :: real
  tap_score :: real
  spiral_score :: real
  overall_risk :: real
  risk_level :: string
  recommendation :: string

text \<open>
  An awaited \<^verbatim>\<open>axios\<close> call either resolves with \<^verbatim>\<open>response.data\<close> or rejects; the
  rejection carries \<^verbatim>\<open>err.response?.data?.detail\<close>, which may be absent.
\<close>

datatype 'a response = Resolved 'a | Rejected "string option"

text \<open>\<^verbatim>\<open>detail || fallback\<close>: an absent or empty detail is falsy.\<close>

definition detailOr :: "string option \<Rightarrow> string \<Rightarrow> string" where
  "detailOr d fallback = (case d of None \<Rightarrow> fallback | Some m \<Rightarrow> if m = [] then fallback else m)"

section \<open>App.jsx: the wizard\<close>

text \<open>
  \<^verbatim>\<open>currentStep\<close> is one of the string constants "landing", "survey", "taps", "spiral",
  "loading", "results", "history".
\<close>

datatype step = Landing | Survey | Taps | Spiral | Loading | Results | History

record testResults =
  survey :: "subScore option"
  taps :: "subScore option"
  spiral :: "subScore option"
  final :: "session option"

record app =
  currentStep :: step
  testResults :: testResults

definition emptyResults :: testResults where
  "emptyResults = \<lparr>survey = None, taps = None, spiral = None, final = None\<rparr>"

definition initialApp :: app where
  "initialApp = \<lparr>currentStep = Landing, testResults = emptyResults\<rparr>"

definition handleStartAssessment :: "app \<Rightarrow> app" where
  "handleStartAssessment s = s\<lparr>currentStep := Survey\<rparr>"

definition handleSurveyComplete :: "subScore \<Rightarrow> app \<Rightarrow> app" where
  "handleSurveyComplete result s =
     s\<lparr>testResults := (testResults s)\<lparr>survey := Some result\<rparr>, currentStep := Taps\<rparr>"

definition handleTapsComplete :: "subScore \<Rightarrow> app \<Rightarrow> app" where
  "handleTapsComplete result s =
     s\<lparr>testResults := (testResults s)\<lparr>taps := Some result\<rparr>, currentStep := Spiral\<rparr>"

definition handleSpiralComplete :: "subScore \<Rightarrow> app \<Rightarrow> app" where
  "handleSpiralComplete result s =
     s\<lparr>testResults := (testResults s)\<lparr>spiral := Some result\<rparr>, currentStep := Loading\<rparr>"

definition handleFinalResults :: "session \<Rightarrow> app \<Rightarrow> app" where
  "handleFinalResults result s =
     s\<lparr>testResults := (testResults s)\<lparr>final := Some result\<rparr>, currentStep := Results\<rparr>"

definition handleRestart :: "app \<Rightarrow> app" where
  "handleRestart s = s\<lparr>currentStep := Landing, testResults := emptyResults\<rparr>"

definition goToHistory :: "app \<Rightarrow> app" where
  "goToHistory s = s\<lparr>currentStep := History\<rparr>"

definition goHome :: "app \<Rightarrow> app" where
  "goHome s = s\<lparr>currentStep := Landing\<rparr>"

text \<open>\<^verbatim>\<open>showNavbar = currentStep !== "landing"\<close>.\<close>

definition showNavbar :: "step \<Rightarrow> bool" where
  "showNavbar st = (st \<noteq> Landing)"

text \<open>
  \<^verbatim>\<open>renderStep\<close>: the component shown for each step. The landing page receives
  \<^verbatim>\<open>onViewHistory\<close> only in the "landing" case; the switch has no case for "loading",
  which takes the default branch.
\<close>

datatype stepComponent = SurveyStep | TapTestStep | SpiralCanvasStep

datatype view =
    LandingPage bool
  | WizardContainer stepComponent
  | FinalDashboard
  | ResultsHistory

fun renderStep :: "step \<Rightarrow> view" where
  "renderStep Landing = LandingPage True"
| "renderStep Survey = WizardContainer SurveyStep"
| "renderStep Taps = WizardContainer TapTestStep"
| "renderStep Spiral = WizardContainer SpiralCanvasStep"
| "renderStep Results = FinalDashboard"
| "renderStep History = ResultsHistory"
| "renderStep Loading = LandingPage False"

text \<open>The public operations of the wizard, one per handler.\<close>

datatype op =
    StartAssessment
  | SurveyComplete subScore
  | TapsComplete subScore
  | SpiralComplete subScore
  | FinalResults session
  | Restart
  | GoToHistory
  | GoHome

fun apply_op :: "op \<Rightarrow> app \<Rightarrow> app" where
  "apply_op StartAssessment s = handleStartAssessment s"
| "apply_op (SurveyComplete r) s = handleSurveyComplete r s"
| "apply_op (TapsComplete r) s = handleTapsComplete r s"
| "apply_op (SpiralComplete r) s = handleSpiralComplete r s"
| "apply_op (FinalResults r) s = handleFinalResults r s"
| "apply_op Restart s = handleRestart s"
| "apply_op GoToHistory s = goToHistory s"
| "apply_op GoHome s = goHome s"

text \<open>
  Which handler the rendered tree hands out at a step: the props of the component chosen
  by \<^const>\<open>renderStep\<close>, and the two navbar buttons when the navbar is shown.
  \<^verbatim>\<open>onFinalResults\<close> is a prop of the spiral step; its submit handler calls it after
  \<^verbatim>\<open>onComplete\<close>, that is, once the step is "loading".
\<close>

fun offered :: "step \<Rightarrow> op \<Rightarrow> bool" where
  "offered st StartAssessment = (case renderStep st of LandingPage _ \<Rightarrow> True | _ \<Rightarrow> False)"
| "offered st (SurveyComplete r) = (renderStep st = WizardContainer SurveyStep)"
| "offered st (TapsComplete r) = (renderStep st = WizardContainer TapTestStep)"
| "offered st (SpiralComplete r) = (renderStep st = WizardContainer SpiralCanvasStep)"
| "offered st (FinalResults r) = (st = Loading)"
| "offered st Restart = (renderStep st = FinalDashboard)"
| "offered st GoToHistory = (renderStep st = LandingPage True \<or> renderStep st = FinalDashboard
                             \<or> showNavbar st)"
| "offered st GoHome = showNavbar st"

text \<open>
  The order of the wizard: Landing, Survey, TapTest, Spiral, Aggregating ("loading"),
  Results. History stands outside it.
\<close>

fun position :: "step \<Rightarrow> nat option" where
  "position Landing = Some 0"
| "position Survey = Some 1"
| "position Taps = Some 2"
| "position Spiral = Some 3"
| "position Loading = Some 4"
| "position Results = Some 5"
| "position History = None"

definition backward :: "step \<Rightarrow> step \<Rightarrow> bool" where
  "backward a b = (case (position a, position b) of (Some i, Some j) \<Rightarrow> j < i | _ \<Rightarrow> False)"

definition forwardByOne :: "step \<Rightarrow> step \<Rightarrow> bool" where
  "forwardByOne a b = (case (position a, position b) of (Some i, Some j) \<Rightarrow> j = Suc i | _ \<Rightarrow> False)"

section \<open>State every step component keeps\<close>

text \<open>The \<^verbatim>\<open>loading\<close> and \<^verbatim>\<open>error\<close> hooks, present in each component.\<close>

record ui =
  loading :: bool
  error :: "string option"

text \<open>
  What a handler does beyond its own state, in the order it does it: the requests it
  sends, the timeouts it sets, the callbacks of the parent it calls.
\<close>

type_synonym point = "real \<times> real"

record canvas =
  path :: "point list"
  strokes :: "point list list"

datatype effect =
    PostSurvey "string \<rightharpoonup> nat"
  | PostTaps "int list"
  | PostSpiral canvas
  | PostAggregate "real option" "real option" real
  | SetTimeout nat
  | OnComplete subScore
  | OnFinalResults session

section \<open>SurveyStep\<close>

text \<open>The ids of the five entries of \<^verbatim>\<open>questions\<close> and the values of \<^verbatim>\<open>options\<close>.\<close>

definition questions :: "string list" where
  "questions = [''tremor'', ''rigidity'', ''bradykinesia'', ''balance'', ''walking'']"

definition options :: "nat list" where
  "options = [0, 1, 2, 3, 4]"

record surveyStep = ui +
  answers :: "string \<rightharpoonup> nat"

definition initialSurvey :: surveyStep where
  "initialSurvey = \<lparr>loading = False, error = None, answers = Map.empty\<rparr>"

definition handleAnswerChange :: "string \<Rightarrow> nat \<Rightarrow> surveyStep \<Rightarrow> surveyStep" where
  "handleAnswerChange questionId v st = st\<lparr>answers := (answers st)(questionId \<mapsto> v)\<rparr>"

definition isComplete :: "surveyStep \<Rightarrow> bool" where
  "isComplete st = list_all (\<lambda>q. answers st q \<noteq> None) questions"

definition surveyValidationMessage :: string where
  "surveyValidationMessage = ''Please answer all questions''"

text \<open>
  \<^verbatim>\<open>handleSubmit\<close> of the survey: the state once the handler has run to its end, and
  its effects. \<open>resp\<close> is how the analyze call settles, should it be sent.
\<close>

definition surveySubmit :: "subScore response \<Rightarrow> surveyStep \<Rightarrow> surveyStep \<times> effect list" where
  "surveySubmit resp st =
     (let allAnswered = list_all (\<lambda>q. answers st q \<noteq> None) questions in
      if \<not> allAnswered then (st\<lparr>error := Some surveyValidationMessage\<rparr>, [])
      else
        (case resp of
           Resolved d \<Rightarrow>
             (st\<lparr>error := None, loading := False\<rparr>, [PostSurvey (answers st), OnComplete d])
         | Rejected d \<Rightarrow>
             (st\<lparr>error := Some (detailOr d ''Failed to submit survey. Please try again.''),
                 loading := False\<rparr>,
              [PostSurvey (answers st)])))"

section \<open>TapTestStep\<close>

record tapTest = ui +
  isActive :: bool
  timeLeft :: nat
  tapCount :: nat
  tapTimestamps :: "int list"
  showInstructions :: bool
  startTimeRef :: "int option"
  lastTapRef :: "int option"

definition initialTapTest :: tapTest where
  "initialTapTest =
     \<lparr>loading = False, error = None, isActive = False, timeLeft = 10, tapCount = 0,
      tapTimestamps = [], showInstructions = True, startTimeRef = None, lastTapRef = None\<rparr>"

text \<open>\<^verbatim>\<open>handleStart\<close> reads the clock twice, once for each ref.\<close>

definition handleStart :: "int \<Rightarrow> int \<Rightarrow> tapTest \<Rightarrow> tapTest" where
  "handleStart now1 now2 st =
     st\<lparr>showInstructions := False, isActive := True, tapCount := 0, tapTimestamps := [],
        timeLeft := 10, startTimeRef := Some now1, lastTapRef := Some now2\<rparr>"

text \<open>\<^verbatim>\<open>now - lastTapRef.current\<close>; a ref still \<^verbatim>\<open>null\<close> counts as 0.\<close>

definition handleTap :: "int \<Rightarrow> tapTest \<Rightarrow> tapTest" where
  "handleTap now st =
     (if \<not> isActive st \<or> timeLeft st = 0 then st
      else
        (let interval = now - (case lastTapRef st of None \<Rightarrow> 0 | Some l \<Rightarrow> l) in
         st\<lparr>tapCount := tapCount st + 1,
            tapTimestamps := tapTimestamps st @ [interval],
            lastTapRef := Some now\<rparr>))"

definition notEnoughTaps :: string where
  "notEnoughTaps = ''Not enough taps recorded. Please try again with at least 3 taps.''"

text \<open>
  \<^verbatim>\<open>handleTestComplete\<close>, on the \<^verbatim>\<open>tapTimestamps\<close> it reads: the state once it has run to
  its end, and its effects. \<^verbatim>\<open>slice(1)\<close> is \<open>drop 1\<close>.
\<close>

definition handleTestComplete :: "subScore response \<Rightarrow> tapTest \<Rightarrow> tapTest \<times> effect list" where
  "handleTestComplete resp st =
     (let st1 = st\<lparr>isActive := False\<rparr> in
      if length (tapTimestamps st) < 3 then
        (st1\<lparr>error := Some notEnoughTaps\<rparr>, [SetTimeout 3000])
      else
        (let intervals = drop 1 (tapTimestamps st) in
         case resp of
           Resolved d \<Rightarrow>
             (st1\<lparr>error := None, loading := False\<rparr>, [PostTaps intervals, OnComplete d])
         | Rejected d \<Rightarrow>
             (st1\<lparr>error := Some (detailOr d ''Failed to analyze taps. Please try again.''),
                  loading := False\<rparr>,
              [PostTaps intervals, SetTimeout 3000])))"

text \<open>The callback both timeouts run.\<close>

definition timeoutCallback :: "tapTest \<Rightarrow> tapTest" where
  "timeoutCallback st = st\<lparr>showInstructions := True, error := None\<rparr>"

text \<open>The instructions block is rendered when \<^verbatim>\<open>showInstructions && !isActive\<close>.\<close>

definition instructionsShown :: "tapTest \<Rightarrow> bool" where
  "instructionsShown st = (showInstructions st \<and> \<not> isActive st)"

text \<open>
  Taps at the given clock readings, one after the other, with no tick of the countdown
  between them.
\<close>

definition recordTaps :: "int list \<Rightarrow> tapTest \<Rightarrow> tapTest" where
  "recordTaps ts st = foldl (\<lambda>s t. handleTap t s) st ts"

text \<open>The interval lists a list of effects sends to the tap analysis.\<close>

fun submittedIntervals :: "effect list \<Rightarrow> int list list" where
  "submittedIntervals [] = []"
| "submittedIntervals (PostTaps xs # es) = xs # submittedIntervals es"
| "submittedIntervals (e # es) = submittedIntervals es"

text \<open>
  The differences of consecutive taps \<open>[t1 - t0, ..., tn - t(n-1)]\<close> of tap times
  \<open>[t0, ..., tn]\<close>, and the list the specification names, \<open>[t2 - t1, ..., tn - t(n-1)]\<close>.
\<close>

definition consecutiveDeltas :: "int list \<Rightarrow> int list" where
  "consecutiveDeltas ts = map (\<lambda>i. ts ! Suc i - ts ! i) [0 ..< length ts - 1]"

definition specIntervals :: "int list \<Rightarrow> int list" where
  "specIntervals ts = map (\<lambda>i. ts ! Suc i - ts ! i) [1 ..< length ts - 1]"

text \<open>The intervals recorded by taps at \<open>ts\<close> when the previous reading was \<open>l\<close>.\<close>

fun deltasFrom :: "int \<Rightarrow> int list \<Rightarrow> int list" where
  "deltasFrom l [] = []"
| "deltasFrom l (t # ts) = (t - l) # deltasFrom t ts"

section \<open>TapTestStep: the countdown\<close>

text \<open>
  The countdown is an effect with dependencies \<^verbatim>\<open>[isActive, timeLeft]\<close>. Each time it runs
  it clears the interval before it and, while \<^verbatim>\<open>isActive && timeLeft > 0\<close>, sets a new one
  whose callback calls the \<^verbatim>\<open>handleTestComplete\<close> of that render. A render after a tap
  changes neither dependency, so the effect does not run again: the interval keeps the
  handler of the render in which \<^verbatim>\<open>isActive\<close> or \<^verbatim>\<open>timeLeft\<close> last changed, and that
  handler reads the \<^verbatim>\<open>tapTimestamps\<close> of that render. \<open>held\<close> is that list.
\<close>

record tapRun =
  widget :: tapTest
  held :: "int list"

text \<open>A render with new state: the effect runs again when a dependency has changed.\<close>

definition rerender :: "tapTest \<Rightarrow> tapRun \<Rightarrow> tapRun" where
  "rerender st' c =
     \<lparr>widget = st',
      held = (if isActive st' \<noteq> isActive (widget c) \<or> timeLeft st' \<noteq> timeLeft (widget c)
              then tapTimestamps st' else held c)\<rparr>"

definition mountTapTest :: tapRun where
  "mountTapTest = \<lparr>widget = initialTapTest, held = []\<rparr>"

text \<open>
  \<^verbatim>\<open>handleTestComplete\<close> as the interval calls it: it reads the list its render had, and
  its setters act on the state of now.
\<close>

definition closureComplete ::
  "subScore response \<Rightarrow> int list \<Rightarrow> tapTest \<Rightarrow> tapTest \<times> effect list" where
  "closureComplete resp seen st =
     (let (st', effs) = handleTestComplete resp (st\<lparr>tapTimestamps := seen\<rparr>)
      in (st'\<lparr>tapTimestamps := tapTimestamps st\<rparr>, effs))"

definition onStart :: "int \<Rightarrow> int \<Rightarrow> tapRun \<Rightarrow> tapRun" where
  "onStart now1 now2 c = rerender (handleStart now1 now2 (widget c)) c"

definition onTap :: "int \<Rightarrow> tapRun \<Rightarrow> tapRun" where
  "onTap now c = rerender (handleTap now (widget c)) c"

text \<open>
  The interval fires: \<^verbatim>\<open>setTimeLeft(prev => ...)\<close>, which at \<^verbatim>\<open>prev <= 1\<close> calls
  \<^verbatim>\<open>handleTestComplete()\<close> and returns 0, and otherwise returns \<^verbatim>\<open>prev - 1\<close>.
\<close>

definition onTick :: "subScore response \<Rightarrow> tapRun \<Rightarrow> tapRun \<times> effect list" where
  "onTick resp c =
     (let st = widget c in
      if isActive st \<and> 0 < timeLeft st then
        (if timeLeft st \<le> 1 then
           (let (st', effs) = closureComplete resp (held c) st
            in (rerender (st'\<lparr>timeLeft := 0\<rparr>) c, effs))
         else (rerender (st\<lparr>timeLeft := timeLeft st - 1\<rparr>) c, []))
      else (c, []))"

text \<open>A run of the test: taps and ticks of the interval, in the order they happen.\<close>

datatype tapEvent = Tap int | Tick

fun onTapEvent ::
  "subScore response \<Rightarrow> tapEvent \<Rightarrow> tapRun \<times> effect list \<Rightarrow> tapRun \<times> effect list" where
  "onTapEvent resp (Tap now) (c, sent) = (onTap now c, sent)"
| "onTapEvent resp Tick (c, sent) = (let (c', effs) = onTick resp c in (c', sent @ effs))"

definition tapEvents ::
  "subScore response \<Rightarrow> tapEvent list \<Rightarrow> tapRun \<Rightarrow> tapRun \<times> effect list" where
  "tapEvents resp es c = foldl (\<lambda>x e. onTapEvent resp e x) (c, []) es"

text \<open>
  The clock readings of the taps of a run, the number of its ticks, and the taps made
  before its last tick.
\<close>

fun tapsOf :: "tapEvent list \<Rightarrow> int list" where
  "tapsOf [] = []"
| "tapsOf (Tap t # es) = t # tapsOf es"
| "tapsOf (Tick # es) = tapsOf es"

fun ticks :: "tapEvent list \<Rightarrow> nat" where
  "ticks [] = 0"
| "ticks (Tap t # es) = ticks es"
| "ticks (Tick # es) = Suc (ticks es)"

fun isTap :: "tapEvent \<Rightarrow> bool" where
  "isTap (Tap t) = True"
| "isTap Tick = False"

definition tapsBeforeLastTick :: "tapEvent list \<Rightarrow> int list" where
  "tapsBeforeLastTick es = tapsOf (rev (dropWhile isTap (rev es)))"

text \<open>What holds of a run started at reading \<open>s\<close> while the countdown has not run out.\<close>

definition counting :: "int \<Rightarrow> tapEvent list \<Rightarrow> tapRun \<times> effect list \<Rightarrow> bool" where
  "counting s es x =
     (isActive (widget (fst x)) \<and> timeLeft (widget (fst x)) = 10 - ticks es
      \<and> tapTimestamps (widget (fst x)) = deltasFrom s (tapsOf es)
      \<and> lastTapRef (widget (fst x)) = Some (last (s # tapsOf es))
      \<and> held (fst x) = deltasFrom s (tapsBeforeLastTick es)
      \<and> snd x = [])"

section \<open>SpiralCanvasStep\<close>

text \<open>
  The canvas holds the context's current path and the polylines stroked so far over the
  guide. \<^verbatim>\<open>drawGuideSpiral\<close> clears the whole canvas, draws the static guide and leaves the
  centre dot's arc, which ends at (305, 300), as the current path.
\<close>

definition drawGuideSpiral :: "canvas \<Rightarrow> canvas" where
  "drawGuideSpiral c = c\<lparr>strokes := [], path := [(305, 300)]\<rparr>"

record spiralStep = ui +
  isDrawing :: bool
  hasDrawn :: bool
  canvasRef :: canvas

definition initialSpiral :: spiralStep where
  "initialSpiral =
     \<lparr>loading = False, error = None, isDrawing = False, hasDrawn = False,
      canvasRef = drawGuideSpiral \<lparr>path = [], strokes = []\<rparr>\<rparr>"

text \<open>\<^verbatim>\<open>beginPath(); moveTo(x, y)\<close>: a new path of one point, nothing painted.\<close>

definition startDrawing :: "point \<Rightarrow> spiralStep \<Rightarrow> spiralStep" where
  "startDrawing p st =
     st\<lparr>canvasRef := (canvasRef st)\<lparr>path := [p]\<rparr>, isDrawing := True, hasDrawn := True\<rparr>"

text \<open>\<^verbatim>\<open>lineTo(x, y); stroke()\<close>: the path grows by a point and is painted.\<close>

definition draw :: "point \<Rightarrow> spiralStep \<Rightarrow> spiralStep" where
  "draw p st =
     (if \<not> isDrawing st then st
      else
        (let c = canvasRef st; path' = path c @ [p] in
         st\<lparr>canvasRef := c\<lparr>path := path', strokes := strokes c @ [path']\<rparr>\<rparr>))"

definition stopDrawing :: "spiralStep \<Rightarrow> spiralStep" where
  "stopDrawing st = st\<lparr>isDrawing := False\<rparr>"

definition handleClear :: "spiralStep \<Rightarrow> spiralStep" where
  "handleClear st = st\<lparr>canvasRef := drawGuideSpiral (canvasRef st), hasDrawn := False\<rparr>"

definition spiralValidationMessage :: string where
  "spiralValidationMessage = ''Please draw a spiral before submitting''"

definition spiralFailedMessage :: string where
  "spiralFailedMessage = ''Failed to analyze spiral. Please try again.''"

text \<open>
  \<^verbatim>\<open>handleSubmit\<close> of the spiral step, with the props \<^verbatim>\<open>surveyScore\<close> and \<^verbatim>\<open>tapScore\<close>:
  the state once it has run to its end, and its effects. \<open>resp\<close> is how the spiral
  analysis settles and \<open>agg\<close> how the aggregate call settles, should they be sent. Only
  the \<^verbatim>\<open>catch\<close> block resets \<^verbatim>\<open>loading\<close>.
\<close>

definition spiralSubmit ::
  "subScore response \<Rightarrow> session response \<Rightarrow> real option \<Rightarrow> real option \<Rightarrow> spiralStep
     \<Rightarrow> spiralStep \<times> effect list" where
  "spiralSubmit resp agg surveyScore tapScore st =
     (if \<not> hasDrawn st then (st\<lparr>error := Some spiralValidationMessage\<rparr>, [])
      else
        (case resp of
           Rejected d \<Rightarrow>
             (st\<lparr>error := Some (detailOr d spiralFailedMessage), loading := False\<rparr>,
              [PostSpiral (canvasRef st)])
         | Resolved r \<Rightarrow>
             (case agg of
                Rejected d \<Rightarrow>
                  (st\<lparr>error := Some (detailOr d spiralFailedMessage), loading := False\<rparr>,
                   [PostSpiral (canvasRef st), OnComplete r,
                    PostAggregate surveyScore tapScore (score r)])
              | Resolved f \<Rightarrow>
                  (st\<lparr>error := None, loading := True\<rparr>,
                   [PostSpiral (canvasRef st), OnComplete r,
                    PostAggregate surveyScore tapScore (score r), OnFinalResults f]))))"

text \<open>
  The events of the canvas and of its two buttons, and a session of them. A click on the
  submit button comes with the way the two calls would settle; the props
  \<^verbatim>\<open>surveyScore\<close> and \<^verbatim>\<open>tapScore\<close> are the same throughout.
\<close>

datatype spiralEvent =
    MouseDown point
  | MouseMove point
  | MouseUp
  | MouseLeave
  | Clear
  | Submit "subScore response" "session response"

fun onSpiralEvent :: "real option \<Rightarrow> real option \<Rightarrow> spiralEvent \<Rightarrow> spiralStep \<Rightarrow> spiralStep" where
  "onSpiralEvent a b (MouseDown p) st = startDrawing p st"
| "onSpiralEvent a b (MouseMove p) st = draw p st"
| "onSpiralEvent a b MouseUp st = stopDrawing st"
| "onSpiralEvent a b MouseLeave st = stopDrawing st"
| "onSpiralEvent a b Clear st = handleClear st"
| "onSpiralEvent a b (Submit resp agg) st = fst (spiralSubmit resp agg a b st)"

definition spiralEvents :: "real option \<Rightarrow> real option \<Rightarrow> spiralEvent list \<Rightarrow> spiralStep \<Rightarrow> spiralStep" where
  "spiralEvents a b es st = foldl (\<lambda>s e. onSpiralEvent a b e s) st es"

text \<open>
  Whether a stroke was begun since the last \<^const>\<open>Clear\<close> (or since the start), and whether
  the canvas shows nothing but the guide.
\<close>

definition strokeBegun :: "spiralEvent list \<Rightarrow> bool" where
  "strokeBegun es =
     foldl (\<lambda>b e. case e of MouseDown p \<Rightarrow> True | Clear \<Rightarrow> False | _ \<Rightarrow> b) False es"

definition untouched :: "spiralStep \<Rightarrow> bool" where
  "untouched st = (strokes (canvasRef st) = [])"

fun sentRequests :: "effect list \<Rightarrow> effect list" where
  "sentRequests [] = []"
| "sentRequests (OnComplete r # es) = sentRequests es"
| "sentRequests (OnFinalResults f # es) = sentRequests es"
| "sentRequests (SetTimeout n # es) = sentRequests es"
| "sentRequests (e # es) = e # sentRequests es"

section \<open>The spiral step inside the wizard\<close>

text \<open>
  The spiral step is rendered with \<^verbatim>\<open>onComplete = handleSpiralComplete\<close>,
  \<^verbatim>\<open>onFinalResults = handleFinalResults\<close> and the scores of the two stored results
  (\<^verbatim>\<open>testResults.survey?.score\<close>).
\<close>

fun spiralProp :: "effect \<Rightarrow> app \<Rightarrow> app" where
  "spiralProp (OnComplete r) s = handleSpiralComplete r s"
| "spiralProp (OnFinalResults f) s = handleFinalResults f s"
| "spiralProp e s = s"

definition submitSpiralInApp ::
  "subScore response \<Rightarrow> session response \<Rightarrow> app \<times> spiralStep
     \<Rightarrow> app \<times> spiralStep \<times> effect list" where
  "submitSpiralInApp resp agg sys =
     (let s = fst sys;
          (st', effs) = spiralSubmit resp agg
             (map_option score (survey (testResults s)))
             (map_option score (taps (testResults s))) (snd sys)
      in (foldl (\<lambda>a e. spiralProp e a) s effs, st', effs))"

text \<open>
  The error block of the spiral step is part of the page only while \<^const>\<open>renderStep\<close>
  renders that step; the landing page, the dashboard and the history page show none of
  its state.
\<close>

definition spiralErrorShown :: "app \<Rightarrow> spiralStep \<Rightarrow> string option" where
  "spiralErrorShown s st =
     (if renderStep (currentStep s) = WizardContainer SpiralCanvasStep then error st else None)"

fun aggregateCalls :: "effect list \<Rightarrow> nat" where
  "aggregateCalls [] = 0"
| "aggregateCalls (PostAggregate a b c # es) = Suc (aggregateCalls es)"
| "aggregateCalls (e # es) = aggregateCalls es"

section \<open>ResultsHistory\<close>

text \<open>
  The data of the statistics response: its \<^verbatim>\<open>statistics\<close> object and its
  \<^verbatim>\<open>risk_distribution\<close> list.
\<close>

record statsData =
  total_sessions :: nat
  avg_risk :: real
  min_risk :: real
  max_risk :: real
  risk_distribution :: "(string \<times> nat) list"

record history = ui +
  sessions :: "session list"
  statistics :: "statsData option"
  activeTab :: string
  sortOrder :: string

definition initialHistory :: history where
  "initialHistory =
     \<lparr>loading = True, error = None, sessions = [], statistics = None,
      activeTab = ''overview'', sortOrder = ''desc''\<rparr>"

text \<open>
  \<^verbatim>\<open>fetchData\<close> up to its \<^verbatim>\<open>await\<close>, and from there on. \<^verbatim>\<open>Promise.all\<close> resolves with both
  responses or rejects.
\<close>

definition fetchDataBegin :: "history \<Rightarrow> history" where
  "fetchDataBegin st = st\<lparr>loading := True\<rparr>"

definition fetchDataSettle :: "(session list \<times> statsData) response \<Rightarrow> history \<Rightarrow> history" where
  "fetchDataSettle resp st =
     (case resp of
        Resolved (ss, stats) \<Rightarrow>
          st\<lparr>sessions := ss, statistics := Some stats, error := None, loading := False\<rparr>
      | Rejected d \<Rightarrow>
          st\<lparr>error := Some ''Failed to load results history'', loading := False\<rparr>)"

text \<open>
  The page with its loads under way: each call of \<^verbatim>\<open>fetchData\<close> is numbered, and its
  number stays in \<open>inFlight\<close> until its responses arrive.
\<close>

record historyPage =
  page :: history
  inFlight :: "nat list"
  issued :: nat

definition callFetchData :: "historyPage \<Rightarrow> historyPage" where
  "callFetchData h =
     h\<lparr>page := fetchDataBegin (page h), inFlight := inFlight h @ [issued h],
       issued := Suc (issued h)\<rparr>"

definition arrive :: "nat \<Rightarrow> (session list \<times> statsData) response \<Rightarrow> historyPage \<Rightarrow> historyPage" where
  "arrive i resp h =
     (if i \<in> set (inFlight h)
      then h\<lparr>page := fetchDataSettle resp (page h), inFlight := removeAll i (inFlight h)\<rparr>
      else h)"

text \<open>The effect on mount calls \<^verbatim>\<open>fetchData\<close> once.\<close>

definition mountHistory :: historyPage where
  "mountHistory = callFetchData \<lparr>page = initialHistory, inFlight = [], issued = 0\<rparr>"

text \<open>
  While \<^verbatim>\<open>loading\<close> the component returns the spinner alone, and the Refresh button is
  \<^verbatim>\<open>disabled={loading}\<close>: a click reaches \<^verbatim>\<open>fetchData\<close> only when \<^verbatim>\<open>loading\<close> is false.
\<close>

definition clickRefresh :: "historyPage \<Rightarrow> historyPage" where
  "clickRefresh h = (if loading (page h) then h else callFetchData h)"

datatype historyEvent =
    ClickRefresh
  | Arrive nat "(session list \<times> statsData) response"

fun onHistoryEvent :: "historyEvent \<Rightarrow> historyPage \<Rightarrow> historyPage" where
  "onHistoryEvent ClickRefresh h = clickRefresh h"
| "onHistoryEvent (Arrive i resp) h = arrive i resp h"

definition historyEvents :: "historyEvent list \<Rightarrow> historyPage" where
  "historyEvents es = foldl (\<lambda>h e. onHistoryEvent e h) mountHistory es"


text \<open>
  The loads whose results were applied during a run of the page, in the order in which
  they were applied.
\<close>

definition logArrival :: "historyEvent \<Rightarrow> historyPage \<Rightarrow> nat list \<Rightarrow> nat list" where
  "logArrival e h ids =
     (case e of
        Arrive i resp \<Rightarrow> if i \<in> set (inFlight h) then ids @ [i] else ids
      | ClickRefresh \<Rightarrow> ids)"

definition historyRun :: "historyEvent list \<Rightarrow> historyPage \<times> nat list" where
  "historyRun es =
     foldl (\<lambda>(h, ids) e. (onHistoryEvent e h, logArrival e h ids)) (mountHistory, []) es"



section \<open>Risk levels and their colours\<close>

definition riskCategories :: "string list" where
  "riskCategories = [''Low'', ''Low-Moderate'', ''Moderate'', ''Moderate-High'', ''High'']"

text \<open>
  \<^verbatim>\<open>table[key] || fallback\<close> on an object literal: an own property gives its string; a
  name every object inherits (\<^verbatim>\<open>constructor\<close>, \<^verbatim>\<open>toString\<close>, ...) gives the inherited
  member, which is truthy; anything else gives the fallback.
\<close>

datatype jsval = JString string | JInherited string

definition objectPrototypeKeys :: "string list" where
  "objectPrototypeKeys =
     [''constructor'', ''__defineGetter__'', ''__defineSetter__'', ''hasOwnProperty'',
      ''__lookupGetter__'', ''__lookupSetter__'', ''isPrototypeOf'', ''propertyIsEnumerable'',
      ''toString'', ''valueOf'', ''__proto__'', ''toLocaleString'']"

definition lookupOr :: "(string \<times> string) list \<Rightarrow> string \<Rightarrow> string \<Rightarrow> jsval" where
  "lookupOr table key fallback =
     (case map_of table key of
        Some v \<Rightarrow> if v = [] then JString fallback else JString v
      | None \<Rightarrow> if key \<in> set objectPrototypeKeys then JInherited key else JString fallback)"

definition RISK_COLORS :: "(string \<times> string) list" where
  "RISK_COLORS =
     [(''Low'', ''#10b981''), (''Low-Moderate'', ''#84cc16''), (''Moderate'', ''#f59e0b''),
      (''Moderate-High'', ''#f97316''), (''High'', ''#ef4444'')]"

definition getRiskBadgeColor :: "string \<Rightarrow> jsval" where
  "getRiskBadgeColor riskLevel = lookupOr RISK_COLORS riskLevel ''#6b7280''"

definition getRiskColor :: "string \<Rightarrow> jsval" where
  "getRiskColor level =
     lookupOr
       [(''Low'', ''green''), (''Low-Moderate'', ''lime''), (''Moderate'', ''yellow''),
        (''Moderate-High'', ''orange''), (''High'', ''red'')]
       level ''gray''"

definition getRiskGradient :: "string \<Rightarrow> jsval" where
  "getRiskGradient level =
     lookupOr
       [(''Low'', ''from-green-500 to-green-600''),
        (''Low-Moderate'', ''from-lime-500 to-green-600''),
        (''Moderate'', ''from-yellow-500 to-orange-500''),
        (''Moderate-High'', ''from-orange-500 to-red-500''),
        (''High'', ''from-red-500 to-red-600'')]
       level ''from-gray-500 to-gray-600''"

text \<open>
  What is rendered of a risk level: the badge of a row of the history table
  (\<^verbatim>\<open>{session.risk_level}\<close> on \<^verbatim>\<open>getRiskBadgeColor\<close>), and the pill of the dashboard
  (\<^verbatim>\<open>Risk Level: {final.risk_level}\<close> on \<^verbatim>\<open>getRiskGradient\<close>).
\<close>

record badge =
  label :: string
  colour :: jsval

definition historyBadge :: "session \<Rightarrow> badge" where
  "historyBadge s = \<lparr>label = risk_level s, colour = getRiskBadgeColor (risk_level s)\<rparr>"

definition dashboardPill :: "session \<Rightarrow> badge" where
  "dashboardPill f =
     \<lparr>label = ''Risk Level: '' @ risk_level f, colour = getRiskGradient (risk_level f)\<rparr>"

section \<open>Chart data of the history page\<close>

text \<open>\<^verbatim>\<open>Math.round\<close> rounds to the nearest integer, a half upwards.\<close>

definition mathRound :: "real \<Rightarrow> int" where
  "mathRound x = \<lfloor>x + 1 / 2\<rfloor>"

text \<open>\<^verbatim>\<open>xs.slice(-n)\<close> for a positive \<open>n\<close>: the last \<open>n\<close> elements, all of them if fewer.\<close>

definition sliceLast :: "nat \<Rightarrow> 'a list \<Rightarrow> 'a list" where
  "sliceLast n xs = drop (length xs - n) xs"

record trendPoint =
  tp_date :: string
  tp_risk :: int
  tp_survey :: int
  tp_tap :: int
  tp_spiral :: int
  tp_timestamp :: string

text \<open>
  One chart point; \<open>fmt\<close> stands for \<^verbatim>\<open>new Date(...).toLocaleDateString("en-US", ...)\<close>.
\<close>

definition toTrendPoint :: "(string \<Rightarrow> string) \<Rightarrow> session \<Rightarrow> trendPoint" where
  "toTrendPoint fmt s =
     \<lparr>tp_date = fmt (timestamp s), tp_risk = mathRound (overall_risk s),
      tp_survey = mathRound (survey_score s), tp_tap = mathRound (tap_score s),
      tp_spiral = mathRound (spiral_score s), tp_timestamp = timestamp s\<rparr>"

definition trendData :: "(string \<Rightarrow> string) \<Rightarrow> session list \<Rightarrow> trendPoint list" where
  "trendData fmt ss = sliceLast 30 (map (toTrendPoint fmt) (rev ss))"

definition comparisonData :: "(string \<Rightarrow> string) \<Rightarrow> session list \<Rightarrow> trendPoint list" where
  "comparisonData fmt ss = sliceLast 10 (trendData fmt ss)"

section \<open>Sample values\<close>

definition sampleScore :: subScore where
  "sampleScore = \<lparr>score = 40, metadata = []\<rparr>"

definition sampleAnswers :: surveyStep where
  "sampleAnswers =
     handleAnswerChange ''walking'' 4 (handleAnswerChange ''balance'' 3
       (handleAnswerChange ''bradykinesia'' 2 (handleAnswerChange ''rigidity'' 1
         (handleAnswerChange ''tremor'' 0 initialSurvey))))"

definition sampleSession :: session where
  "sampleSession =
     \<lparr>session_id = ''s-1'', timestamp = ''2024-05-01T10:00:00'', survey_score = 10,
      tap_score = 20, spiral_score = 40, overall_risk = 25, risk_level = ''Low'',
      recommendation = ''Keep monitoring''\<rparr>"

definition afterSurvey :: app where
  "afterSurvey = apply_op (SurveyComplete sampleScore) (apply_op StartAssessment initialApp)"

definition beforeSpiral :: app where
  "beforeSpiral = apply_op (TapsComplete sampleScore) afterSurvey"

definition drawnSpiral :: spiralStep where
  "drawnSpiral =
     spiralEvents (Some 40) (Some 40) [MouseDown (300, 300), MouseMove (310, 305), MouseUp]
       initialSpiral"

definition severeSession :: session where
  "severeSession = sampleSession\<lparr>risk_level := ''Severe''\<rparr>"


definition newerSession :: session where
  "newerSession = sampleSession\<lparr>session_id := ''s-2'', timestamp := ''2024-05-02T09:30:00''\<rparr>"

definition olderSession :: session where
  "olderSession = sampleSession\<lparr>session_id := ''s-0'', timestamp := ''2024-04-30T08:00:00''\<rparr>"

definition completedRun :: app where
  "completedRun =
     apply_op (FinalResults sampleSession) (apply_op (SpiralComplete sampleScore) beforeSpiral)"

definition lastSecondRun :: "tapEvent list" where
  "lastSecondRun =
     [Tap 100, Tap 300, Tap 650, Tick, Tick, Tick, Tick, Tick, Tick, Tick, Tick, Tick,
      Tap 9500]"

section \<open>The wizard: what starting and restarting touch\<close>

text \<open>
  C10. Starting an assessment from the landing page changes the step only: the four
  result slots keep what they held, also after a return to the landing page through the
  navbar or through the history page. Each completion handler overwrites its own slot and
  no other. Of all the operations only \<^const>\<open>handleRestart\<close> empties the slots: after any
  other one every slot that was filled is still filled.
\<close>

theorem C10_start_keeps_results:
  "testResults (handleStartAssessment s) = testResults s
   \<and> currentStep (handleStartAssessment s) = Survey
   \<and> testResults (handleStartAssessment (goHome s)) = testResults s
   \<and> testResults (handleSurveyComplete r (handleStartAssessment (goHome s)))
       = (testResults s)\<lparr>survey := Some r\<rparr>
   \<and> testResults (handleTapsComplete r s) = (testResults s)\<lparr>taps := Some r\<rparr>
   \<and> testResults (handleSpiralComplete r s) = (testResults s)\<lparr>spiral := Some r\<rparr>
   \<and> testResults (handleFinalResults f s) = (testResults s)\<lparr>final := Some f\<rparr>
   \<and> testResults (handleRestart s) = emptyResults
   \<and> testResults (goToHistory s) = testResults s
   \<and> testResults (goHome s) = testResults s
   \<and> testResults (handleStartAssessment (goHome (goToHistory s))) = testResults s
   \<and> testResults (apply_op o' s)
       = (case o' of
            StartAssessment \<Rightarrow> testResults s
          | SurveyComplete x \<Rightarrow> (testResults s)\<lparr>survey := Some x\<rparr>
          | TapsComplete x \<Rightarrow> (testResults s)\<lparr>taps := Some x\<rparr>
          | SpiralComplete x \<Rightarrow> (testResults s)\<lparr>spiral := Some x\<rparr>
          | FinalResults x \<Rightarrow> (testResults s)\<lparr>final := Some x\<rparr>
          | Restart \<Rightarrow> emptyResults
          | GoToHistory \<Rightarrow> testResults s
          | GoHome \<Rightarrow> testResults s)
   \<and> (o' \<noteq> Restart \<longrightarrow>
        (survey (testResults s) \<noteq> None \<longrightarrow> survey (testResults (apply_op o' s)) \<noteq> None)
        \<and> (taps (testResults s) \<noteq> None \<longrightarrow> taps (testResults (apply_op o' s)) \<noteq> None)
        \<and> (spiral (testResults s) \<noteq> None \<longrightarrow> spiral (testResults (apply_op o' s)) \<noteq> None)
        \<and> (final (testResults s) \<noteq> None \<longrightarrow> final (testResults (apply_op o' s)) \<noteq> None))"
proof -
  have ops: "testResults (apply_op o' s)
       = (case o' of
            StartAssessment \<Rightarrow> testResults s
          | SurveyComplete x \<Rightarrow> (testResults s)\<lparr>survey := Some x\<rparr>
          | TapsComplete x \<Rightarrow> (testResults s)\<lparr>taps := Some x\<rparr>
          | SpiralComplete x \<Rightarrow> (testResults s)\<lparr>spiral := Some x\<rparr>
          | FinalResults x \<Rightarrow> (testResults s)\<lparr>final := Some x\<rparr>
          | Restart \<Rightarrow> emptyResults
          | GoToHistory \<Rightarrow> testResults s
          | GoHome \<Rightarrow> testResults s)"
    by (cases o')
       (simp_all add: handleStartAssessment_def goHome_def goToHistory_def
         handleSurveyComplete_def handleTapsComplete_def handleSpiralComplete_def
         handleFinalResults_def handleRestart_def)
  have kept: "o' \<noteq> Restart \<longrightarrow>
        (survey (testResults s) \<noteq> None \<longrightarrow> survey (testResults (apply_op o' s)) \<noteq> None)
        \<and> (taps (testResults s) \<noteq> None \<longrightarrow> taps (testResults (apply_op o' s)) \<noteq> None)
        \<and> (spiral (testResults s) \<noteq> None \<longrightarrow> spiral (testResults (apply_op o' s)) \<noteq> None)
        \<and> (final (testResults s) \<noteq> None \<longrightarrow> final (testResults (apply_op o' s)) \<noteq> None)"
    unfolding ops by (cases o') simp_all
  have rest: "testResults (handleStartAssessment s) = testResults s
   \<and> currentStep (handleStartAssessment s) = Survey
   \<and> testResults (handleStartAssessment (goHome s)) = testResults s
   \<and> testResults (handleSurveyComplete r (handleStartAssessment (goHome s)))
       = (testResults s)\<lparr>survey := Some r\<rparr>
   \<and> testResults (handleTapsComplete r s) = (testResults s)\<lparr>taps := Some r\<rparr>
   \<and> testResults (handleSpiralComplete r s) = (testResults s)\<lparr>spiral := Some r\<rparr>
   \<and> testResults (handleFinalResults f s) = (testResults s)\<lparr>final := Some f\<rparr>
   \<and> testResults (handleRestart s) = emptyResults
   \<and> testResults (goToHistory s) = testResults s
   \<and> testResults (goHome s) = testResults s
   \<and> testResults (handleStartAssessment (goHome (goToHistory s))) = testResults s"
    by (simp add: handleStartAssessment_def goHome_def goToHistory_def handleSurveyComplete_def
        handleTapsComplete_def handleSpiralComplete_def handleFinalResults_def
        handleRestart_def)
  show ?thesis using rest ops kept by blast
qed

theorem C10_start_keeps_results_witness:
  "GoToHistory \<noteq> Restart
   \<and> survey (testResults completedRun) \<noteq> None
   \<and> final (testResults completedRun) \<noteq> None
   \<and> survey (testResults (apply_op GoToHistory completedRun)) \<noteq> None
   \<and> final (testResults (apply_op GoToHistory completedRun)) \<noteq> None
   \<and> testResults (apply_op Restart completedRun) = emptyResults"
proof -
  have a: "survey (testResults completedRun) \<noteq> None" "final (testResults completedRun) \<noteq> None"
    by (simp_all add: completedRun_def beforeSpiral_def afterSurvey_def initialApp_def
        emptyResults_def handleStartAssessment_def handleSurveyComplete_def
        handleTapsComplete_def handleSpiralComplete_def handleFinalResults_def)
  have n: "GoToHistory \<noteq> Restart" by simp
  note inst = C10_start_keeps_results [of completedRun _ _ GoToHistory]
  have 1: "survey (testResults (apply_op GoToHistory completedRun)) \<noteq> None"
    using inst n a(1) by blast
  have 2: "final (testResults (apply_op GoToHistory completedRun)) \<noteq> None"
    using inst n a(2) by blast
  have 3: "testResults (apply_op Restart completedRun) = emptyResults"
    using C10_start_keeps_results [of completedRun _ _ Restart] by simp
  show ?thesis using n a 1 2 3 by blast
qed

section \<open>The tap test: what completion checks and sends\<close>

lemma handleTap_active:
  "isActive st \<Longrightarrow> timeLeft st \<noteq> 0 \<Longrightarrow> lastTapRef st = Some l \<Longrightarrow>
   handleTap t st
     = st\<lparr>tapCount := tapCount st + 1, tapTimestamps := tapTimestamps st @ [t - l],
          lastTapRef := Some t\<rparr>"
  by (simp add: handleTap_def)

lemma deltasFrom_consecutive:
  "deltasFrom l (t # ts) = (t - l) # consecutiveDeltas (t # ts)"
proof (induction ts arbitrary: l t)
  case Nil
  then show ?case by (simp add: consecutiveDeltas_def)
next
  case (Cons u us)
  have "consecutiveDeltas (t # u # us) = (u - t) # consecutiveDeltas (u # us)"
  proof -
    have "[Suc 0 ..< Suc (length us)] = map Suc [0 ..< length us]"
      by (simp only: map_Suc_upt)
    then show ?thesis
      by (simp add: consecutiveDeltas_def upt_conv_Cons del: upt_Suc)
  qed
  then show ?case using Cons.IH[of t u] by simp
qed

text \<open>
  C1, as the code has it. \<^const>\<open>handleTestComplete\<close> rejects the run locally exactly when
  the interval list it reads has fewer than 3 entries, counted before the first one is
  dropped (so fewer than 2 after the drop). Then nothing is sent to the tap analysis, one
  timeout of 3000 ms is set, and its callback brings the instructions back and clears the
  error. With 3 or more entries the list without its first entry is sent, once.
\<close>

theorem C1_tap_validation:
  "(handleTestComplete resp st
      = (st\<lparr>isActive := False, error := Some notEnoughTaps\<rparr>, [SetTimeout 3000]))
     = (length (tapTimestamps st) < 3)
   \<and> (length (tapTimestamps st) < 3) = (length (drop 1 (tapTimestamps st)) < 2)
   \<and> (length (tapTimestamps st) < 3 \<longrightarrow>
        submittedIntervals (snd (handleTestComplete resp st)) = []
        \<and> instructionsShown (timeoutCallback (fst (handleTestComplete resp st)))
        \<and> error (timeoutCallback (fst (handleTestComplete resp st))) = None)
   \<and> (3 \<le> length (tapTimestamps st) \<longrightarrow>
        submittedIntervals (snd (handleTestComplete resp st)) = [drop 1 (tapTimestamps st)])"
proof -
  have short: "length (tapTimestamps st) < 3 \<Longrightarrow>
      handleTestComplete resp st
        = (st\<lparr>isActive := False, error := Some notEnoughTaps\<rparr>, [SetTimeout 3000])"
    by (simp add: handleTestComplete_def)
  have long: "3 \<le> length (tapTimestamps st) \<Longrightarrow>
      submittedIntervals (snd (handleTestComplete resp st)) = [drop 1 (tapTimestamps st)]"
    by (cases resp) (simp_all add: handleTestComplete_def)
  have iff: "(handleTestComplete resp st
      = (st\<lparr>isActive := False, error := Some notEnoughTaps\<rparr>, [SetTimeout 3000]))
     = (length (tapTimestamps st) < 3)"
  proof (cases "length (tapTimestamps st) < 3")
    case True
    then show ?thesis using short by simp
  next
    case False
    then have "submittedIntervals (snd (handleTestComplete resp st)) \<noteq> []"
      using long by simp
    then have "snd (handleTestComplete resp st) \<noteq> [SetTimeout 3000]" by auto
    then show ?thesis using False by auto
  qed
  have arith: "(length (tapTimestamps st) < 3) = (length (drop 1 (tapTimestamps st)) < 2)"
    by auto
  have shown: "length (tapTimestamps st) < 3 \<Longrightarrow>
        submittedIntervals (snd (handleTestComplete resp st)) = []
        \<and> instructionsShown (timeoutCallback (fst (handleTestComplete resp st)))
        \<and> error (timeoutCallback (fst (handleTestComplete resp st))) = None"
    by (simp add: short timeoutCallback_def instructionsShown_def)
  show ?thesis using iff arith shown long by blast
qed

theorem C1_tap_validation_witness:
  "length (tapTimestamps (recordTaps [100, 300] (handleStart 0 0 initialTapTest))) < 3
   \<and> submittedIntervals (snd (handleTestComplete (Resolved sampleScore)
        (recordTaps [100, 300] (handleStart 0 0 initialTapTest)))) = []
   \<and> instructionsShown (timeoutCallback (fst (handleTestComplete (Resolved sampleScore)
        (recordTaps [100, 300] (handleStart 0 0 initialTapTest)))))
   \<and> 3 \<le> length (tapTimestamps (recordTaps [100, 300, 650, 900] (handleStart 0 0 initialTapTest)))
   \<and> submittedIntervals (snd (handleTestComplete (Resolved sampleScore)
        (recordTaps [100, 300, 650, 900] (handleStart 0 0 initialTapTest)))) = [[200, 350, 250]]"
proof -
  let ?two = "recordTaps [100, 300] (handleStart 0 0 initialTapTest)"
  let ?four = "recordTaps [100, 300, 650, 900] (handleStart 0 0 initialTapTest)"
  have a: "tapTimestamps ?two = [100, 200]"
    by (simp add: recordTaps_def handleTap_def handleStart_def initialTapTest_def)
  have b: "tapTimestamps ?four = [100, 200, 350, 250]"
    by (simp add: recordTaps_def handleTap_def handleStart_def initialTapTest_def)
  have short: "length (tapTimestamps ?two) < 3" by (simp add: a)
  have long: "3 \<le> length (tapTimestamps ?four)" by (simp add: b)
  have dropped: "drop 1 (tapTimestamps ?four) = [200, 350, 250]" by (simp add: b)
  have 1: "submittedIntervals (snd (handleTestComplete (Resolved sampleScore) ?two)) = []
        \<and> instructionsShown (timeoutCallback (fst (handleTestComplete (Resolved sampleScore) ?two)))"
    using C1_tap_validation [of "Resolved sampleScore" ?two] short by blast
  have 2: "submittedIntervals (snd (handleTestComplete (Resolved sampleScore) ?four))
             = [drop 1 (tapTimestamps ?four)]"
    using C1_tap_validation [of "Resolved sampleScore" ?four] long by blast
  show ?thesis using short long 1 2 [unfolded dropped] by blast
qed

text \<open>
  C1 as stated fails: after three taps the list without its first entry has two entries,
  fewer than 3, and yet the run is not rejected: the two intervals are sent.
\<close>

theorem C1_three_taps_counterexample:
  "length (drop 1 (tapTimestamps (recordTaps [100, 300, 650] (handleStart 0 0 initialTapTest)))) < 3
   \<and> snd (handleTestComplete (Resolved sampleScore)
        (recordTaps [100, 300, 650] (handleStart 0 0 initialTapTest)))
       = [PostTaps [200, 350], OnComplete sampleScore]
   \<and> error (fst (handleTestComplete (Resolved sampleScore)
        (recordTaps [100, 300, 650] (handleStart 0 0 initialTapTest)))) = None"
  by (simp add: recordTaps_def handleTap_def handleStart_def initialTapTest_def
      handleTestComplete_def)

section \<open>The tap test: what the countdown sends when it runs out\<close>

lemma tapsOf_append: "tapsOf (es @ fs) = tapsOf es @ tapsOf fs"
  by (induction es rule: tapsOf.induct) simp_all

lemma ticks_append: "ticks (es @ fs) = ticks es + ticks fs"
  by (induction es rule: ticks.induct) simp_all

lemma before_snoc_tap: "tapsBeforeLastTick (es @ [Tap t]) = tapsBeforeLastTick es"
  by (simp add: tapsBeforeLastTick_def)

lemma before_snoc_tick: "tapsBeforeLastTick (es @ [Tick]) = tapsOf es"
  by (simp add: tapsBeforeLastTick_def tapsOf_append)

lemma deltasFrom_snoc: "deltasFrom l (ts @ [t]) = deltasFrom l ts @ [t - last (l # ts)]"
  by (induction ts arbitrary: l) simp_all

lemma counting_start:
  "\<not> isActive (widget c) \<Longrightarrow> counting s [] (onStart s0 s c, [])"
  by (simp add: counting_def onStart_def rerender_def handleStart_def tapsBeforeLastTick_def)

lemma counting_tap:
  assumes "counting s es x" "ticks es \<le> 9"
  shows "counting s (es @ [Tap t]) (onTapEvent resp (Tap t) x)"
proof -
  obtain c sent where x: "x = (c, sent)" by (cases x)
  have a: "isActive (widget c)" "timeLeft (widget c) \<noteq> 0"
      "lastTapRef (widget c) = Some (last (s # tapsOf es))"
    using assms by (simp_all add: counting_def x)
  have h: "handleTap t (widget c)
     = (widget c)\<lparr>tapCount := tapCount (widget c) + 1,
          tapTimestamps := tapTimestamps (widget c) @ [t - last (s # tapsOf es)],
          lastTapRef := Some t\<rparr>"
    using a by (rule handleTap_active)
  show ?thesis using assms(1)
    by (simp add: counting_def x onTap_def rerender_def h tapsOf_append ticks_append
        deltasFrom_snoc before_snoc_tap)
qed

lemma counting_tick:
  assumes "counting s es x" "ticks es < 9"
  shows "counting s (es @ [Tick]) (onTapEvent resp Tick x)"
proof -
  obtain c sent where x: "x = (c, sent)" by (cases x)
  have a: "isActive (widget c)" "timeLeft (widget c) = 10 - ticks es"
    using assms(1) by (simp_all add: counting_def x)
  have b: "1 < timeLeft (widget c)" using a(2) assms(2) by simp
  have tick: "onTick resp c = (rerender ((widget c)\<lparr>timeLeft := timeLeft (widget c) - 1\<rparr>) c, [])"
    using a(1) b by (simp add: onTick_def Let_def)
  have ne: "timeLeft (widget c) - 1 \<noteq> timeLeft (widget c)" using b by simp
  have re: "rerender ((widget c)\<lparr>timeLeft := timeLeft (widget c) - 1\<rparr>) c
      = \<lparr>widget = (widget c)\<lparr>timeLeft := timeLeft (widget c) - 1\<rparr>,
         held = tapTimestamps (widget c)\<rparr>"
    using ne by (simp add: rerender_def)
  have res: "onTapEvent resp Tick x
      = (\<lparr>widget = (widget c)\<lparr>timeLeft := timeLeft (widget c) - 1\<rparr>,
          held = tapTimestamps (widget c)\<rparr>, sent)"
    using re by (simp add: x tick)
  show ?thesis unfolding res using assms(1)
    by (simp add: counting_def x tapsOf_append ticks_append before_snoc_tick)
qed

lemma counting_events:
  assumes "\<not> isActive (widget c)" "ticks es \<le> 9"
  shows "counting s es (tapEvents resp es (onStart s0 s c))"
  using assms(2)
proof (induction es rule: rev_induct)
  case Nil
  then show ?case using counting_start [OF assms(1)] by (simp add: tapEvents_def)
next
  case (snoc e es)
  have run: "tapEvents resp (es @ [e]) (onStart s0 s c)
      = onTapEvent resp e (tapEvents resp es (onStart s0 s c))"
    by (simp add: tapEvents_def)
  show ?case
  proof (cases e)
    case (Tap t)
    then have n: "ticks es \<le> 9" using snoc.prems by (simp add: ticks_append)
    have "counting s es (tapEvents resp es (onStart s0 s c))" using snoc.IH n by simp
    then have "counting s (es @ [Tap t]) (onTapEvent resp (Tap t) (tapEvents resp es (onStart s0 s c)))"
      using n by (rule counting_tap)
    then show ?thesis using run by (simp only: Tap)
  next
    case Tick
    then have n: "ticks es < 9" using snoc.prems by (simp add: ticks_append)
    have "counting s es (tapEvents resp es (onStart s0 s c))" using snoc.IH n by simp
    then have "counting s (es @ [Tick]) (onTapEvent resp Tick (tapEvents resp es (onStart s0 s c)))"
      using n by (rule counting_tick)
    then show ?thesis using run by (simp only: Tick)
  qed
qed

lemma specIntervals_start: "specIntervals (s # ts) = consecutiveDeltas ts"
proof -
  have "[1 ..< length ts] = map Suc [0 ..< length ts - 1]"
    by (cases ts) (simp_all add: map_Suc_upt del: upt_Suc)
  then show ?thesis
    by (simp add: specIntervals_def consecutiveDeltas_def)
qed

lemma drop_deltasFrom: "drop (Suc 0) (deltasFrom s ts) = consecutiveDeltas ts"
proof (cases ts)
  case Nil
  then show ?thesis by (simp add: consecutiveDeltas_def)
next
  case (Cons t rest)
  then show ?thesis by (simp only: deltasFrom_consecutive) simp
qed

lemma length_deltasFrom: "length (deltasFrom l ts) = length ts"
  by (induction ts arbitrary: l) simp_all

lemma recordTaps_events:
  "widget (fst (tapEvents resp (map Tap ts) c)) = recordTaps ts (widget c)
   \<and> held (fst (tapEvents resp (map Tap ts) c)) = held c
   \<and> snd (tapEvents resp (map Tap ts) c) = []"
proof (induction ts rule: rev_induct)
  case Nil
  then show ?case by (simp add: tapEvents_def recordTaps_def)
next
  case (snoc t ts)
  obtain c' sent where x: "tapEvents resp (map Tap ts) c = (c', sent)"
    by (cases "tapEvents resp (map Tap ts) c")
  have run: "tapEvents resp (map Tap ts @ [Tap t]) c = onTapEvent resp (Tap t) (c', sent)"
    by (simp add: tapEvents_def x [unfolded tapEvents_def])
  have same: "isActive (handleTap t (widget c')) = isActive (widget c')"
      "timeLeft (handleTap t (widget c')) = timeLeft (widget c')"
    by (simp_all add: handleTap_def Let_def)
  show ?case using snoc.IH same
    by (simp add: run x onTap_def rerender_def recordTaps_def)
qed

text \<open>
  C2. A test is started at clock reading \<open>t0\<close> and run to the end of its countdown: nine
  ticks with taps among them, taps in the last second, the tenth tick. Every tap is
  recorded: the interval list is \<open>[t1 - t0, t2 - t1, ..., tn - t(n-1)]\<close>. What is sent is
  \<open>[t2 - t1, ...]\<close> over the taps made before the ninth tick only, when there are at least
  three of them, and nothing otherwise: the handler the interval calls reads the list of
  the render at the ninth tick, so the taps of the last second are recorded and not
  sent. When no tap falls in the last second, what is sent is
  \<open>[t2 - t1, ..., tn - t(n-1)]\<close> over all the taps.
\<close>

theorem C2_expiry_sends_held_list:
  assumes "\<not> isActive (widget c)" and "ticks es = 9"
  shows "tapTimestamps (widget (fst (tapEvents resp (es @ [Tick]) (onStart s0 s c))))
       = deltasFrom s (tapsOf es)
     \<and> (3 \<le> length (tapsBeforeLastTick es) \<longrightarrow>
          submittedIntervals (snd (tapEvents resp (es @ [Tick]) (onStart s0 s c)))
            = [specIntervals (s # tapsBeforeLastTick es)])
     \<and> (length (tapsBeforeLastTick es) < 3 \<longrightarrow>
          submittedIntervals (snd (tapEvents resp (es @ [Tick]) (onStart s0 s c))) = [])
     \<and> (tapsBeforeLastTick es = tapsOf es \<and> 3 \<le> length (tapsOf es) \<longrightarrow>
          submittedIntervals (snd (tapEvents resp (es @ [Tick]) (onStart s0 s c)))
            = [specIntervals (s # tapsOf es)])"
proof -
  let ?x = "tapEvents resp es (onStart s0 s c)"
  obtain c' sent where x: "?x = (c', sent)" by (cases ?x)
  have inv: "counting s es ?x" using assms by (simp add: counting_events)
  have a: "isActive (widget c')" "timeLeft (widget c') = 1"
      "tapTimestamps (widget c') = deltasFrom s (tapsOf es)"
      "held c' = deltasFrom s (tapsBeforeLastTick es)" "sent = []"
    using inv assms(2) by (simp_all add: counting_def x)
  have run: "tapEvents resp (es @ [Tick]) (onStart s0 s c) = onTapEvent resp Tick ?x"
    by (simp add: tapEvents_def)
  obtain st' effs where cc: "closureComplete resp (held c') (widget c') = (st', effs)"
    by (cases "closureComplete resp (held c') (widget c')")
  have tick: "onTick resp c' = (rerender (st'\<lparr>timeLeft := 0\<rparr>) c', effs)"
    using a(1,2) by (simp add: onTick_def Let_def cc)
  have fin: "tapEvents resp (es @ [Tick]) (onStart s0 s c)
      = (rerender (st'\<lparr>timeLeft := 0\<rparr>) c', effs)"
    by (simp add: run x tick a(5))
  obtain st1 where h: "handleTestComplete resp ((widget c')\<lparr>tapTimestamps := held c'\<rparr>) = (st1, effs)"
    and st': "st' = st1\<lparr>tapTimestamps := tapTimestamps (widget c')\<rparr>"
    using cc by (auto simp: closureComplete_def split: prod.splits)
  have sent: "(3 \<le> length (held c') \<longrightarrow> submittedIntervals effs = [drop (Suc 0) (held c')])
      \<and> (length (held c') < 3 \<longrightarrow> submittedIntervals effs = [])"
    using h by (cases resp) (auto simp: handleTestComplete_def)
  have 1: "tapTimestamps (widget (fst (tapEvents resp (es @ [Tick]) (onStart s0 s c))))
       = deltasFrom s (tapsOf es)"
    by (simp add: fin rerender_def st' a(3))
  have 2: "(3 \<le> length (tapsBeforeLastTick es) \<longrightarrow>
          submittedIntervals (snd (tapEvents resp (es @ [Tick]) (onStart s0 s c)))
            = [specIntervals (s # tapsBeforeLastTick es)])
     \<and> (length (tapsBeforeLastTick es) < 3 \<longrightarrow>
          submittedIntervals (snd (tapEvents resp (es @ [Tick]) (onStart s0 s c))) = [])"
    using sent
    by (simp add: fin a(4) length_deltasFrom drop_deltasFrom specIntervals_start)
  show ?thesis using 1 2 by metis
qed

theorem C2_expiry_sends_held_list_witness:
  "\<not> isActive (widget mountTapTest) \<and> ticks lastSecondRun = 9
   \<and> tapsOf lastSecondRun = [100, 300, 650, 9500]
   \<and> tapsBeforeLastTick lastSecondRun = [100, 300, 650]
   \<and> tapTimestamps (widget (fst (tapEvents (Resolved sampleScore) (lastSecondRun @ [Tick])
         (onStart 0 0 mountTapTest)))) = [100, 200, 350, 8850]
   \<and> submittedIntervals (snd (tapEvents (Resolved sampleScore) (lastSecondRun @ [Tick])
         (onStart 0 0 mountTapTest))) = [[200, 350]]
   \<and> specIntervals (0 # tapsOf lastSecondRun) = [200, 350, 8850]"
proof -
  have a: "\<not> isActive (widget mountTapTest)"
    by (simp add: mountTapTest_def initialTapTest_def)
  have n: "ticks lastSecondRun = 9" by (simp add: lastSecondRun_def)
  have t: "tapsOf lastSecondRun = [100, 300, 650, 9500]" by (simp add: lastSecondRun_def)
  have b: "tapsBeforeLastTick lastSecondRun = [100, 300, 650]"
    by (simp add: lastSecondRun_def tapsBeforeLastTick_def)
  have three: "3 \<le> length (tapsBeforeLastTick lastSecondRun)" by (simp add: b)
  note inst = C2_expiry_sends_held_list [OF a n, of "Resolved sampleScore" 0 0]
  have 1: "tapTimestamps (widget (fst (tapEvents (Resolved sampleScore) (lastSecondRun @ [Tick])
         (onStart 0 0 mountTapTest)))) = deltasFrom 0 (tapsOf lastSecondRun)"
    using inst by blast
  have 2: "submittedIntervals (snd (tapEvents (Resolved sampleScore) (lastSecondRun @ [Tick])
         (onStart 0 0 mountTapTest))) = [specIntervals (0 # tapsBeforeLastTick lastSecondRun)]"
    using inst three by blast
  have d: "deltasFrom 0 (tapsOf lastSecondRun) = [100, 200, 350, 8850]" by (simp add: t)
  have s1: "specIntervals (0 # tapsBeforeLastTick lastSecondRun) = [200, 350]"
    by (simp add: b specIntervals_def upt_conv_Cons del: upt_Suc)
  have s2: "specIntervals (0 # tapsOf lastSecondRun) = [200, 350, 8850]"
    by (simp add: t specIntervals_def upt_conv_Cons del: upt_Suc)
  show ?thesis using a n t b 1 [unfolded d] 2 [unfolded s1] s2 by blast
qed

section \<open>The survey: when a submission is sent\<close>

lemma surveySubmit_incomplete:
  "\<not> isComplete st \<Longrightarrow> surveySubmit resp st = (st\<lparr>error := Some surveyValidationMessage\<rparr>, [])"
  by (simp add: surveySubmit_def isComplete_def)

lemma surveySubmit_complete:
  "isComplete st \<Longrightarrow> sentRequests (snd (surveySubmit resp st)) = [PostSurvey (answers st)]"
  by (cases resp) (simp_all add: surveySubmit_def isComplete_def)

text \<open>
  C7. When each of the five question ids has an answer between 0 and 4, the submit
  handler does not report the validation error and sends the answers, in one request.
  When some id has no answer, it sets the validation message and does nothing else: no
  request, no callback, no other change of state.
\<close>

theorem C7_survey_validation:
  "((\<forall>q \<in> set questions. \<exists>v. answers st q = Some v \<and> v \<le> 4) \<longrightarrow>
      surveySubmit resp st \<noteq> (st\<lparr>error := Some surveyValidationMessage\<rparr>, [])
      \<and> sentRequests (snd (surveySubmit resp st)) = [PostSurvey (answers st)])
   \<and> ((\<exists>q \<in> set questions. answers st q = None) \<longrightarrow>
      surveySubmit resp st = (st\<lparr>error := Some surveyValidationMessage\<rparr>, [])
      \<and> sentRequests (snd (surveySubmit resp st)) = [])"
proof (intro conjI impI)
  assume all: "\<forall>q \<in> set questions. \<exists>v. answers st q = Some v \<and> v \<le> 4"
  then have c: "isComplete st" by (auto simp: isComplete_def list_all_iff)
  show sent: "sentRequests (snd (surveySubmit resp st)) = [PostSurvey (answers st)]"
    using c by (rule surveySubmit_complete)
  show "surveySubmit resp st \<noteq> (st\<lparr>error := Some surveyValidationMessage\<rparr>, [])"
    using sent by auto
next
  assume "\<exists>q \<in> set questions. answers st q = None"
  then have c: "\<not> isComplete st" by (auto simp: isComplete_def list_all_iff)
  then show "surveySubmit resp st = (st\<lparr>error := Some surveyValidationMessage\<rparr>, [])"
    by (rule surveySubmit_incomplete)
  then show "sentRequests (snd (surveySubmit resp st)) = []" by simp
qed

theorem C7_survey_validation_witness:
  "list_all (\<lambda>q. \<exists>v. answers sampleAnswers q = Some v \<and> v \<le> 4) questions
   \<and> sentRequests (snd (surveySubmit (Resolved sampleScore) sampleAnswers))
       = [PostSurvey (answers sampleAnswers)]
   \<and> list_ex (\<lambda>q. answers initialSurvey q = None) questions
   \<and> surveySubmit (Resolved sampleScore) initialSurvey
       = (initialSurvey\<lparr>error := Some surveyValidationMessage\<rparr>, [])"
proof -
  have full: "list_all (\<lambda>q. \<exists>v. answers sampleAnswers q = Some v \<and> v \<le> 4) questions"
    by (simp add: sampleAnswers_def handleAnswerChange_def initialSurvey_def questions_def)
  have none: "list_ex (\<lambda>q. answers initialSurvey q = None) questions"
    by (simp add: initialSurvey_def questions_def)
  have 1: "sentRequests (snd (surveySubmit (Resolved sampleScore) sampleAnswers))
       = [PostSurvey (answers sampleAnswers)]"
    using C7_survey_validation [of sampleAnswers "Resolved sampleScore"] full
    by (simp add: list_all_iff)
  have 2: "surveySubmit (Resolved sampleScore) initialSurvey
       = (initialSurvey\<lparr>error := Some surveyValidationMessage\<rparr>, [])"
    using C7_survey_validation [of initialSurvey "Resolved sampleScore"] none
    by (simp add: list_ex_iff)
  show ?thesis using full none 1 2 by blast
qed

section \<open>The spiral: when a submission is sent\<close>

lemma hasDrawn_event:
  "hasDrawn (onSpiralEvent a b e st)
     = (case e of MouseDown p \<Rightarrow> True | Clear \<Rightarrow> False | _ \<Rightarrow> hasDrawn st)"
proof (cases e)
  case (Submit resp agg)
  show ?thesis
    by (cases resp; cases agg) (simp_all add: Submit spiralSubmit_def)
qed (simp_all add: startDrawing_def draw_def stopDrawing_def handleClear_def Let_def)

lemma hasDrawn_events:
  "hasDrawn (spiralEvents a b es st)
     = foldl (\<lambda>b e. case e of MouseDown p \<Rightarrow> True | Clear \<Rightarrow> False | _ \<Rightarrow> b) (hasDrawn st) es"
  unfolding spiralEvents_def
  by (induction es arbitrary: st) (simp_all add: hasDrawn_event)

lemma hasDrawn_strokeBegun:
  "hasDrawn (spiralEvents a b es initialSpiral) = strokeBegun es"
  by (simp add: hasDrawn_events strokeBegun_def initialSpiral_def)

lemma untouched_click:
  "untouched (spiralEvents a b (es @ [Clear, MouseDown p, MouseUp]) initialSpiral)"
  by (simp add: untouched_def spiralEvents_def handleClear_def drawGuideSpiral_def
      startDrawing_def stopDrawing_def)

lemma untouched_first_click:
  "untouched (spiralEvents a b [MouseDown p, MouseUp] initialSpiral)"
  by (simp add: untouched_def spiralEvents_def initialSpiral_def drawGuideSpiral_def
      startDrawing_def stopDrawing_def)

text \<open>
  C8. After any session of canvas events, clears and submissions, the submit handler
  sets the validation message and sends nothing exactly when \<^verbatim>\<open>hasDrawn\<close> is false, and
  otherwise sends the canvas first of all. The flag is set at mouse-down and unset by a
  clear: after a stroke from one point to another the submission goes out, after a clear
  it does not. But the flag is also set by a mouse-down that no move follows: nothing has
  been drawn, the canvas shows the guide alone, and the submission goes out all the same.
\<close>

theorem C8_spiral_validation:
  "(\<not> strokeBegun es \<longrightarrow>
      spiralSubmit resp agg a b (spiralEvents a b es initialSpiral)
        = ((spiralEvents a b es initialSpiral)\<lparr>error := Some spiralValidationMessage\<rparr>, []))
   \<and> (strokeBegun es \<longrightarrow>
      take 1 (snd (spiralSubmit resp agg a b (spiralEvents a b es initialSpiral)))
        = [PostSpiral (canvasRef (spiralEvents a b es initialSpiral))])
   \<and> strokeBegun (es @ [MouseDown p, MouseMove q, MouseUp])
   \<and> \<not> strokeBegun (es @ [Clear])
   \<and> strokeBegun [MouseDown p, MouseUp]
   \<and> untouched (spiralEvents a b [MouseDown p, MouseUp] initialSpiral)
   \<and> strokeBegun (es @ [Clear, MouseDown p, MouseUp])
   \<and> untouched (spiralEvents a b (es @ [Clear, MouseDown p, MouseUp]) initialSpiral)"
proof -
  let ?st = "spiralEvents a b es initialSpiral"
  have h: "hasDrawn ?st = strokeBegun es" by (rule hasDrawn_strokeBegun)
  have no: "\<not> hasDrawn ?st \<Longrightarrow>
      spiralSubmit resp agg a b ?st = (?st\<lparr>error := Some spiralValidationMessage\<rparr>, [])"
    by (simp add: spiralSubmit_def)
  have yes: "hasDrawn ?st \<Longrightarrow>
      take 1 (snd (spiralSubmit resp agg a b ?st)) = [PostSpiral (canvasRef ?st)]"
    by (cases resp; cases agg) (simp_all add: spiralSubmit_def)
  have s: "strokeBegun (es @ [MouseDown p, MouseMove q, MouseUp])" "\<not> strokeBegun (es @ [Clear])"
      "strokeBegun [MouseDown p, MouseUp]" "strokeBegun (es @ [Clear, MouseDown p, MouseUp])"
    by (simp_all add: strokeBegun_def)
  show ?thesis using h no yes s untouched_click untouched_first_click by blast
qed

theorem C8_spiral_validation_witness:
  "\<not> strokeBegun [MouseDown (300, 300), MouseMove (310, 305), MouseUp, Clear]
   \<and> snd (spiralSubmit (Resolved sampleScore) (Resolved sampleSession) None None
        (spiralEvents None None [MouseDown (300, 300), MouseMove (310, 305), MouseUp, Clear]
           initialSpiral)) = []
   \<and> strokeBegun [MouseDown (300, 300), MouseMove (310, 305), MouseUp]
   \<and> take 1 (snd (spiralSubmit (Resolved sampleScore) (Resolved sampleSession) None None
        (spiralEvents None None [MouseDown (300, 300), MouseMove (310, 305), MouseUp]
           initialSpiral)))
      = [PostSpiral \<lparr>path = [(300, 300), (310, 305)], strokes = [[(300, 300), (310, 305)]]\<rparr>]
   \<and> strokeBegun [MouseDown (300, 300), MouseUp]
   \<and> untouched (spiralEvents None None [MouseDown (300, 300), MouseUp] initialSpiral)
   \<and> take 1 (snd (spiralSubmit (Resolved sampleScore) (Resolved sampleSession) None None
        (spiralEvents None None [MouseDown (300, 300), MouseUp] initialSpiral)))
      = [PostSpiral \<lparr>path = [(300, 300)], strokes = []\<rparr>]"
proof -
  let ?cleared = "[MouseDown (300, 300), MouseMove (310, 305), MouseUp, Clear]"
  let ?drawn = "[MouseDown (300, 300), MouseMove (310, 305), MouseUp]"
  let ?click = "[MouseDown (300, 300), MouseUp]"
  have n: "\<not> strokeBegun ?cleared" by (simp add: strokeBegun_def)
  have y: "strokeBegun ?drawn" by (simp add: strokeBegun_def)
  have k: "strokeBegun ?click" by (simp add: strokeBegun_def)
  have c: "canvasRef (spiralEvents None None ?drawn initialSpiral)
        = \<lparr>path = [(300, 300), (310, 305)], strokes = [[(300, 300), (310, 305)]]\<rparr>"
    by (simp add: spiralEvents_def startDrawing_def draw_def stopDrawing_def initialSpiral_def
        drawGuideSpiral_def Let_def)
  have c2: "canvasRef (spiralEvents None None ?click initialSpiral)
        = \<lparr>path = [(300, 300)], strokes = []\<rparr>"
    by (simp add: spiralEvents_def startDrawing_def stopDrawing_def initialSpiral_def
        drawGuideSpiral_def)
  have 1: "spiralSubmit (Resolved sampleScore) (Resolved sampleSession) None None
        (spiralEvents None None ?cleared initialSpiral)
      = ((spiralEvents None None ?cleared initialSpiral)\<lparr>error := Some spiralValidationMessage\<rparr>, [])"
    using C8_spiral_validation [of ?cleared "Resolved sampleScore" "Resolved sampleSession" None None]
      n by blast
  have 2: "take 1 (snd (spiralSubmit (Resolved sampleScore) (Resolved sampleSession) None None
        (spiralEvents None None ?drawn initialSpiral)))
      = [PostSpiral (canvasRef (spiralEvents None None ?drawn initialSpiral))]"
    using C8_spiral_validation [of ?drawn "Resolved sampleScore" "Resolved sampleSession" None None]
      y by blast
  have 3: "snd (spiralSubmit (Resolved sampleScore) (Resolved sampleSession) None None
        (spiralEvents None None ?cleared initialSpiral)) = []"
    by (simp only: 1 snd_conv)
  have 4: "take 1 (snd (spiralSubmit (Resolved sampleScore) (Resolved sampleSession) None None
        (spiralEvents None None ?click initialSpiral)))
      = [PostSpiral (canvasRef (spiralEvents None None ?click initialSpiral))]"
    using C8_spiral_validation [of ?click "Resolved sampleScore" "Resolved sampleSession" None None]
      k by blast
  have 5: "untouched (spiralEvents None None ?click initialSpiral)"
    using C8_spiral_validation [of "[]" _ _ None None "(300, 300)"] by blast
  show ?thesis using n y k 3 2 [unfolded c] 4 [unfolded c2] 5 by blast
qed

section \<open>The wizard: which operations move where\<close>

lemma backward_cases:
  "offered st o' \<Longrightarrow> backward st (currentStep (apply_op o' s)) \<Longrightarrow> currentStep s = st \<Longrightarrow>
   o' = Restart \<or> o' = GoHome \<or> (o' = StartAssessment \<and> st = Loading)"
  by (cases o'; cases st)
     (simp_all add: backward_def showNavbar_def handleStartAssessment_def
       handleSurveyComplete_def handleTapsComplete_def handleSpiralComplete_def
       handleFinalResults_def handleRestart_def goToHistory_def goHome_def)

lemma forward_cases:
  "offered st o' \<Longrightarrow> currentStep s = st \<Longrightarrow> o' \<noteq> Restart \<Longrightarrow> o' \<noteq> GoHome \<Longrightarrow>
   o' \<noteq> GoToHistory \<Longrightarrow> \<not> (st = Loading \<and> o' = StartAssessment) \<Longrightarrow>
   forwardByOne st (currentStep (apply_op o' s))"
  by (cases o'; cases st)
     (simp_all add: forwardByOne_def showNavbar_def handleStartAssessment_def
       handleSurveyComplete_def handleTapsComplete_def handleSpiralComplete_def
       handleFinalResults_def)

text \<open>
  C4, as the code has it. Of the handlers the page hands out at a step, the ones that move
  the wizard to an earlier step are \<^const>\<open>handleRestart\<close> and \<^const>\<open>goHome\<close> (and the start
  button of the page shown for "loading"); every completion handler, and the start button
  on the landing step, moves exactly one step forward. Restart returns to Landing with
  all four result slots empty; Home returns to Landing and leaves the slots as they are.
\<close>

theorem C4_wizard_transitions:
  "(\<forall>o'. offered (currentStep s) o' \<and> backward (currentStep s) (currentStep (apply_op o' s))
       \<longrightarrow> o' = Restart \<or> o' = GoHome \<or> (o' = StartAssessment \<and> currentStep s = Loading))
   \<and> (\<forall>o'. offered (currentStep s) o' \<and> o' \<noteq> Restart \<and> o' \<noteq> GoHome \<and> o' \<noteq> GoToHistory
         \<and> \<not> (currentStep s = Loading \<and> o' = StartAssessment)
       \<longrightarrow> forwardByOne (currentStep s) (currentStep (apply_op o' s)))
   \<and> apply_op Restart s = s\<lparr>currentStep := Landing, testResults := emptyResults\<rparr>
   \<and> apply_op GoHome s = s\<lparr>currentStep := Landing\<rparr>"
  using backward_cases [where st = "currentStep s" and s = s]
    forward_cases [where st = "currentStep s" and s = s]
  by (auto simp: handleRestart_def goHome_def)

theorem C4_wizard_transitions_witness:
  "offered (currentStep (apply_op (FinalResults sampleSession) beforeSpiral)) Restart
   \<and> backward (currentStep (apply_op (FinalResults sampleSession) beforeSpiral))
        (currentStep (apply_op Restart (apply_op (FinalResults sampleSession) beforeSpiral)))
   \<and> testResults (apply_op Restart (apply_op (FinalResults sampleSession) beforeSpiral))
        = emptyResults
   \<and> offered (currentStep afterSurvey) (TapsComplete sampleScore)
   \<and> forwardByOne (currentStep afterSurvey)
        (currentStep (apply_op (TapsComplete sampleScore) afterSurvey))"
proof -
  let ?done = "apply_op (FinalResults sampleSession) beforeSpiral"
  have r: "currentStep ?done = Results" by (simp add: handleFinalResults_def)
  have t: "currentStep afterSurvey = Taps"
    by (simp add: afterSurvey_def handleSurveyComplete_def)
  have 1: "offered (currentStep ?done) Restart" by (simp add: handleFinalResults_def)
  have 2: "offered (currentStep afterSurvey) (TapsComplete sampleScore)" by (simp only: t) simp
  have 3: "apply_op Restart ?done = ?done\<lparr>currentStep := Landing, testResults := emptyResults\<rparr>"
    using C4_wizard_transitions [of ?done] by blast
  have 4: "forwardByOne (currentStep afterSurvey)
        (currentStep (apply_op (TapsComplete sampleScore) afterSurvey))"
    using C4_wizard_transitions [of afterSurvey] 2 by blast
  have 5: "backward (currentStep ?done) (currentStep (apply_op Restart ?done))"
    by (simp only: 3) (simp add: handleFinalResults_def backward_def)
  have 6: "testResults (apply_op Restart ?done) = emptyResults"
    by (simp only: 3) simp
  show ?thesis using 1 2 4 5 6 by blast
qed

text \<open>
  C4 as stated fails: on the tap step, after the survey result was stored, the Home
  button moves back to Landing; it is not Restart and the survey result stays.
\<close>

theorem C4_goHome_counterexample:
  "offered (currentStep afterSurvey) GoHome
   \<and> backward (currentStep afterSurvey) (currentStep (apply_op GoHome afterSurvey))
   \<and> GoHome \<noteq> Restart
   \<and> survey (testResults (apply_op GoHome afterSurvey)) = Some sampleScore"
  by (simp add: afterSurvey_def initialApp_def emptyResults_def handleStartAssessment_def
      handleSurveyComplete_def goHome_def backward_def showNavbar_def)

section \<open>The wizard: a failed aggregation\<close>

text \<open>
  C3. The spiral analysis succeeds and the aggregate call fails. The wizard is at
  "loading" and stays there; the survey and tap results are untouched and the spiral
  result is stored; the final slot is untouched; the aggregate call was made once. The
  submit handler sets the error in the spiral step's own state, but the page rendered for
  "loading" is the landing page, not the spiral step, so no error is on the page.
\<close>

theorem C3_aggregation_failure:
  assumes "currentStep s = Spiral" and "hasDrawn st"
  shows "submitSpiralInApp (Resolved r) (Rejected d) (s, st)
      = (s\<lparr>testResults := (testResults s)\<lparr>spiral := Some r\<rparr>, currentStep := Loading\<rparr>,
         st\<lparr>error := Some (detailOr d spiralFailedMessage), loading := False\<rparr>,
         [PostSpiral (canvasRef st), OnComplete r,
          PostAggregate (map_option score (survey (testResults s)))
            (map_option score (taps (testResults s))) (score r)])
     \<and> aggregateCalls (snd (snd (submitSpiralInApp (Resolved r) (Rejected d) (s, st)))) = 1
     \<and> renderStep (currentStep (fst (submitSpiralInApp (Resolved r) (Rejected d) (s, st))))
         = LandingPage False
     \<and> spiralErrorShown (fst (submitSpiralInApp (Resolved r) (Rejected d) (s, st)))
         (fst (snd (submitSpiralInApp (Resolved r) (Rejected d) (s, st)))) = None"
proof -
  have run: "submitSpiralInApp (Resolved r) (Rejected d) (s, st)
      = (s\<lparr>testResults := (testResults s)\<lparr>spiral := Some r\<rparr>, currentStep := Loading\<rparr>,
         st\<lparr>error := Some (detailOr d spiralFailedMessage), loading := False\<rparr>,
         [PostSpiral (canvasRef st), OnComplete r,
          PostAggregate (map_option score (survey (testResults s)))
            (map_option score (taps (testResults s))) (score r)])"
    using assms(2) by (simp add: submitSpiralInApp_def spiralSubmit_def handleSpiralComplete_def)
  show ?thesis
    by (simp only: run) (simp add: spiralErrorShown_def)
qed

theorem C3_aggregation_failure_witness:
  "currentStep beforeSpiral = Spiral \<and> hasDrawn drawnSpiral
   \<and> currentStep (fst (submitSpiralInApp (Resolved sampleScore) (Rejected (Some ''aggregate failed''))
        (beforeSpiral, drawnSpiral))) = Loading
   \<and> error (fst (snd (submitSpiralInApp (Resolved sampleScore) (Rejected (Some ''aggregate failed''))
        (beforeSpiral, drawnSpiral)))) = Some ''aggregate failed''
   \<and> spiralErrorShown
        (fst (submitSpiralInApp (Resolved sampleScore) (Rejected (Some ''aggregate failed''))
           (beforeSpiral, drawnSpiral)))
        (fst (snd (submitSpiralInApp (Resolved sampleScore) (Rejected (Some ''aggregate failed''))
           (beforeSpiral, drawnSpiral)))) = None"
proof -
  have a: "currentStep beforeSpiral = Spiral"
    by (simp add: beforeSpiral_def handleTapsComplete_def)
  have b: "hasDrawn drawnSpiral"
    by (simp add: drawnSpiral_def spiralEvents_def startDrawing_def draw_def stopDrawing_def
        initialSpiral_def Let_def)
  note run = C3_aggregation_failure [OF a b, of sampleScore "Some ''aggregate failed''"]
  have run1: "submitSpiralInApp (Resolved sampleScore) (Rejected (Some ''aggregate failed''))
        (beforeSpiral, drawnSpiral)
      = (beforeSpiral\<lparr>testResults := (testResults beforeSpiral)\<lparr>spiral := Some sampleScore\<rparr>,
           currentStep := Loading\<rparr>,
         drawnSpiral\<lparr>error := Some (detailOr (Some ''aggregate failed'') spiralFailedMessage),
           loading := False\<rparr>,
         [PostSpiral (canvasRef drawnSpiral), OnComplete sampleScore,
          PostAggregate (map_option score (survey (testResults beforeSpiral)))
            (map_option score (taps (testResults beforeSpiral))) (score sampleScore)])"
    using run by blast
  have shown: "spiralErrorShown
        (fst (submitSpiralInApp (Resolved sampleScore) (Rejected (Some ''aggregate failed''))
           (beforeSpiral, drawnSpiral)))
        (fst (snd (submitSpiralInApp (Resolved sampleScore) (Rejected (Some ''aggregate failed''))
           (beforeSpiral, drawnSpiral)))) = None"
    using run by blast
  have c: "currentStep (fst (submitSpiralInApp (Resolved sampleScore)
        (Rejected (Some ''aggregate failed'')) (beforeSpiral, drawnSpiral))) = Loading"
    by (simp only: run1) simp
  have e: "error (fst (snd (submitSpiralInApp (Resolved sampleScore)
        (Rejected (Some ''aggregate failed'')) (beforeSpiral, drawnSpiral))))
      = Some ''aggregate failed''"
    by (simp only: run1) (simp add: detailOr_def)
  show ?thesis using a b c e shown by blast
qed

section \<open>Risk levels on the page\<close>

lemma lookupOr_unknown:
  "key \<notin> fst ` set table \<Longrightarrow> key \<notin> set objectPrototypeKeys \<Longrightarrow>
   lookupOr table key fallback = JString fallback"
  by (simp add: lookupOr_def map_of_eq_None_iff [THEN iffD2])

text \<open>
  C5, as the code has it. The risk level of a session is rendered as it is, in the history
  table and on the dashboard. Each of the five categories gets its own colour from each
  of the three colour tables; any other value (not a name every object inherits) gets the
  gray fallback of each. No value is reported as an error.
\<close>

theorem C5_risk_level_rendering:
  "label (historyBadge s) = risk_level s
   \<and> label (dashboardPill s) = ''Risk Level: '' @ risk_level s
   \<and> (risk_level s \<in> set riskCategories \<longrightarrow>
        map_option JString (map_of RISK_COLORS (risk_level s)) = Some (colour (historyBadge s))
        \<and> colour (historyBadge s) \<noteq> JString ''#6b7280'')
   \<and> (risk_level s \<notin> set riskCategories \<and> risk_level s \<notin> set objectPrototypeKeys \<longrightarrow>
        colour (historyBadge s) = JString ''#6b7280''
        \<and> colour (dashboardPill s) = JString ''from-gray-500 to-gray-600''
        \<and> getRiskColor (risk_level s) = JString ''gray'')
   \<and> (risk_level s = ''Low'' \<longrightarrow>
        colour (historyBadge s) = JString ''#10b981''
        \<and> colour (dashboardPill s) = JString ''from-green-500 to-green-600''
        \<and> getRiskColor (risk_level s) = JString ''green'')
   \<and> (risk_level s = ''Low-Moderate'' \<longrightarrow>
        colour (historyBadge s) = JString ''#84cc16''
        \<and> colour (dashboardPill s) = JString ''from-lime-500 to-green-600''
        \<and> getRiskColor (risk_level s) = JString ''lime'')
   \<and> (risk_level s = ''Moderate'' \<longrightarrow>
        colour (historyBadge s) = JString ''#f59e0b''
        \<and> colour (dashboardPill s) = JString ''from-yellow-500 to-orange-500''
        \<and> getRiskColor (risk_level s) = JString ''yellow'')
   \<and> (risk_level s = ''Moderate-High'' \<longrightarrow>
        colour (historyBadge s) = JString ''#f97316''
        \<and> colour (dashboardPill s) = JString ''from-orange-500 to-red-500''
        \<and> getRiskColor (risk_level s) = JString ''orange'')
   \<and> (risk_level s = ''High'' \<longrightarrow>
        colour (historyBadge s) = JString ''#ef4444''
        \<and> colour (dashboardPill s) = JString ''from-red-500 to-red-600''
        \<and> getRiskColor (risk_level s) = JString ''red'')"
proof -
  have labels: "label (historyBadge s) = risk_level s"
      "label (dashboardPill s) = ''Risk Level: '' @ risk_level s"
    by (simp_all add: historyBadge_def dashboardPill_def)
  have known: "risk_level s \<in> set riskCategories \<longrightarrow>
        map_option JString (map_of RISK_COLORS (risk_level s)) = Some (colour (historyBadge s))
        \<and> colour (historyBadge s) \<noteq> JString ''#6b7280''"
    by (auto simp: riskCategories_def historyBadge_def getRiskBadgeColor_def lookupOr_def
        RISK_COLORS_def)
  have other: "risk_level s \<notin> set riskCategories \<and> risk_level s \<notin> set objectPrototypeKeys \<longrightarrow>
        colour (historyBadge s) = JString ''#6b7280''
        \<and> colour (dashboardPill s) = JString ''from-gray-500 to-gray-600''
        \<and> getRiskColor (risk_level s) = JString ''gray''"
    by (simp add: historyBadge_def dashboardPill_def getRiskBadgeColor_def getRiskGradient_def
        getRiskColor_def lookupOr_unknown RISK_COLORS_def riskCategories_def)
  have each: "\<And>level. risk_level s = level \<Longrightarrow>
      colour (historyBadge s) = getRiskBadgeColor level
      \<and> colour (dashboardPill s) = getRiskGradient level"
    by (simp add: historyBadge_def dashboardPill_def)
  have low: "risk_level s = ''Low'' \<longrightarrow>
        colour (historyBadge s) = JString ''#10b981''
        \<and> colour (dashboardPill s) = JString ''from-green-500 to-green-600''
        \<and> getRiskColor (risk_level s) = JString ''green''"
    by (simp add: historyBadge_def dashboardPill_def getRiskBadgeColor_def getRiskGradient_def
        getRiskColor_def lookupOr_def RISK_COLORS_def)
  have lowmod: "risk_level s = ''Low-Moderate'' \<longrightarrow>
        colour (historyBadge s) = JString ''#84cc16''
        \<and> colour (dashboardPill s) = JString ''from-lime-500 to-green-600''
        \<and> getRiskColor (risk_level s) = JString ''lime''"
    by (simp add: historyBadge_def dashboardPill_def getRiskBadgeColor_def getRiskGradient_def
        getRiskColor_def lookupOr_def RISK_COLORS_def)
  have mod: "risk_level s = ''Moderate'' \<longrightarrow>
        colour (historyBadge s) = JString ''#f59e0b''
        \<and> colour (dashboardPill s) = JString ''from-yellow-500 to-orange-500''
        \<and> getRiskColor (risk_level s) = JString ''yellow''"
    by (simp add: historyBadge_def dashboardPill_def getRiskBadgeColor_def getRiskGradient_def
        getRiskColor_def lookupOr_def RISK_COLORS_def)
  have modhigh: "risk_level s = ''Moderate-High'' \<longrightarrow>
        colour (historyBadge s) = JString ''#f97316''
        \<and> colour (dashboardPill s) = JString ''from-orange-500 to-red-500''
        \<and> getRiskColor (risk_level s) = JString ''orange''"
    by (simp add: historyBadge_def dashboardPill_def getRiskBadgeColor_def getRiskGradient_def
        getRiskColor_def lookupOr_def RISK_COLORS_def)
  have high: "risk_level s = ''High'' \<longrightarrow>
        colour (historyBadge s) = JString ''#ef4444''
        \<and> colour (dashboardPill s) = JString ''from-red-500 to-red-600''
        \<and> getRiskColor (risk_level s) = JString ''red''"
    by (simp add: historyBadge_def dashboardPill_def getRiskBadgeColor_def getRiskGradient_def
        getRiskColor_def lookupOr_def RISK_COLORS_def)
  show ?thesis using labels known other low lowmod mod modhigh high by blast
qed

theorem C5_risk_level_rendering_witness:
  "risk_level sampleSession = ''Low''
   \<and> colour (historyBadge sampleSession) = JString ''#10b981''
   \<and> colour (dashboardPill sampleSession) = JString ''from-green-500 to-green-600''
   \<and> getRiskColor (risk_level sampleSession) = JString ''green''
   \<and> risk_level severeSession \<notin> set riskCategories
   \<and> risk_level severeSession \<notin> set objectPrototypeKeys
   \<and> colour (dashboardPill severeSession) = JString ''from-gray-500 to-gray-600''"
proof -
  have k: "risk_level sampleSession = ''Low''" by (simp add: sampleSession_def)
  have u: "risk_level severeSession \<notin> set riskCategories"
    "risk_level severeSession \<notin> set objectPrototypeKeys"
    by (simp_all add: severeSession_def riskCategories_def objectPrototypeKeys_def)
  have 1: "colour (historyBadge sampleSession) = JString ''#10b981''
      \<and> colour (dashboardPill sampleSession) = JString ''from-green-500 to-green-600''
      \<and> getRiskColor (risk_level sampleSession) = JString ''green''"
    using C5_risk_level_rendering [of sampleSession] k by blast
  have 2: "colour (dashboardPill severeSession) = JString ''from-gray-500 to-gray-600''"
    using C5_risk_level_rendering [of severeSession] u by blast
  show ?thesis using k u 1 2 by blast
qed

text \<open>
  C5 as stated fails: a session whose risk level is "Severe" is rendered with that label,
  which is none of the five categories, on the fallback colour.
\<close>

theorem C5_unknown_level_counterexample:
  "label (historyBadge severeSession) \<notin> set riskCategories
   \<and> historyBadge severeSession = \<lparr>label = ''Severe'', colour = JString ''#6b7280''\<rparr>
   \<and> dashboardPill severeSession
       = \<lparr>label = ''Risk Level: Severe'', colour = JString ''from-gray-500 to-gray-600''\<rparr>"
  by (simp add: historyBadge_def dashboardPill_def severeSession_def sampleSession_def
      riskCategories_def getRiskBadgeColor_def getRiskGradient_def lookupOr_def RISK_COLORS_def
      objectPrototypeKeys_def)

section \<open>The history page: loads and their results\<close>





lemma historyRun_fst: "fst (historyRun es) = historyEvents es"
  unfolding historyRun_def historyEvents_def
  by (induction es rule: rev_induct) (simp_all add: case_prod_unfold)






section \<open>The history page: chart data\<close>

lemma sorted_wrt_take: "sorted_wrt P xs \<Longrightarrow> sorted_wrt P (take n xs)"
  by (metis append_take_drop_id sorted_wrt_append)

lemma oldest_first:
  assumes "sorted_wrt (\<lambda>a b. R (timestamp b) (timestamp a)) ss"
  shows "sorted_wrt (\<lambda>p q. R (tp_timestamp p) (tp_timestamp q))
           (map (toTrendPoint fmt) (rev (take n ss)))"
proof -
  have "sorted_wrt (\<lambda>a b. R (timestamp b) (timestamp a)) (take n ss)"
    using assms by (rule sorted_wrt_take)
  then have "sorted_wrt (\<lambda>a b. R (timestamp a) (timestamp b)) (rev (take n ss))"
    by (simp add: sorted_wrt_rev)
  then show ?thesis
    by (simp add: sorted_wrt_map toTrendPoint_def)
qed

lemma projections_eq:
  "trendData fmt ss = map (toTrendPoint fmt) (rev (take 30 ss))"
  "comparisonData fmt ss = map (toTrendPoint fmt) (rev (take 10 ss))"
proof -
  have slice: "\<And>n (xs :: session list). sliceLast n (map (toTrendPoint fmt) (rev xs))
      = map (toTrendPoint fmt) (rev (take n xs))"
    by (simp add: sliceLast_def rev_take drop_map)
  show t: "trendData fmt ss = map (toTrendPoint fmt) (rev (take 30 ss))"
    by (simp add: trendData_def slice)
  show "comparisonData fmt ss = map (toTrendPoint fmt) (rev (take 10 ss))"
    by (simp add: comparisonData_def t slice min_def)
qed

lemma projection_suffix:
  "suffix (map (toTrendPoint fmt) (rev (take n ss))) (map (toTrendPoint fmt) (rev ss))"
proof -
  have "rev ss = rev (drop n ss) @ rev (take n ss)"
    by (metis append_take_drop_id rev_append)
  then have "map (toTrendPoint fmt) (rev ss)
      = map (toTrendPoint fmt) (rev (drop n ss)) @ map (toTrendPoint fmt) (rev (take n ss))"
    by (metis map_append)
  then show ?thesis by (simp add: suffix_def)
qed

text \<open>
  C9. For a session list delivered most recent first, the trend data has at most 30
  entries and the comparison data at most 10. They are the 30 and the 10 most recent
  sessions, in reverse order of delivery, hence each is the end of the list put in
  oldest-first order; and if the list is ordered most recent first by its timestamps,
  both are ordered oldest first.
\<close>

theorem C9_projections:
  "length (trendData fmt ss) \<le> 30
   \<and> length (comparisonData fmt ss) \<le> 10
   \<and> trendData fmt ss = map (toTrendPoint fmt) (rev (take 30 ss))
   \<and> comparisonData fmt ss = map (toTrendPoint fmt) (rev (take 10 ss))
   \<and> suffix (trendData fmt ss) (map (toTrendPoint fmt) (rev ss))
   \<and> suffix (comparisonData fmt ss) (map (toTrendPoint fmt) (rev ss))
   \<and> (sorted_wrt (\<lambda>a b. notLater (timestamp b) (timestamp a)) ss \<longrightarrow>
        sorted_wrt (\<lambda>p q. notLater (tp_timestamp p) (tp_timestamp q)) (trendData fmt ss)
        \<and> sorted_wrt (\<lambda>p q. notLater (tp_timestamp p) (tp_timestamp q)) (comparisonData fmt ss))"
  by (simp add: projections_eq projection_suffix oldest_first)

theorem C9_projections_witness:
  "sorted_wrt (\<lambda>a b. timestamp b \<le> timestamp a) [newerSession, sampleSession, olderSession]
   \<and> map tp_timestamp (trendData (take 10) [newerSession, sampleSession, olderSession])
       = [''2024-04-30T08:00:00'', ''2024-05-01T10:00:00'', ''2024-05-02T09:30:00'']
   \<and> sorted_wrt (\<lambda>p q. tp_timestamp p \<le> tp_timestamp q)
        (trendData (take 10) [newerSession, sampleSession, olderSession])"
proof -
  let ?ss = "[newerSession, sampleSession, olderSession]"
  have h: "sorted_wrt (\<lambda>a b. timestamp b \<le> timestamp a) ?ss"
    by (simp add: newerSession_def sampleSession_def olderSession_def)
  note inst = C9_projections [of "take 10" ?ss "(\<le>)"]
  have 1: "sorted_wrt (\<lambda>p q. tp_timestamp p \<le> tp_timestamp q) (trendData (take 10) ?ss)"
    using inst h by blast
  have "trendData (take 10) ?ss = map (toTrendPoint (take 10)) (rev (take 30 ?ss))"
    using inst by blast
  then have 2: "map tp_timestamp (trendData (take 10) ?ss)
       = [''2024-04-30T08:00:00'', ''2024-05-01T10:00:00'', ''2024-05-02T09:30:00'']"
    by (simp add: toTrendPoint_def newerSession_def sampleSession_def olderSession_def)
  show ?thesis using h 1 2 by blast
qed

end
